theory Spec2Isabelle
  imports Complex_Main "HOL-Library.Sublist"
begin

section \<open>Python values\<close>

text \<open>
  The workflows and agents exchange plain Python dictionaries. A dictionary is an
  association list in insertion order; its values are the JSON-like values below.
  Amounts are Python numbers and are modelled as reals (no NaN, no infinities).
  Durations and workflow time are natural numbers of minutes.
\<close>

datatype pyval =
    PyNone
  | PyBool bool
  | PyNum real
  | PyStr string
  | PyList "pyval list"
  | PyDict "(string \<times> pyval) list"

type_synonym pydict = "(string \<times> pyval) list"

datatype py_error = KeyError string | TypeError | IndexError

definition keys :: "pydict \<Rightarrow> string list" where
  "keys d = map fst d"

section \<open>workflows/procurement_workflows.py: data\<close>

text \<open>
  The requisition dictionary handed to \<open>RequisitionApprovalWorkflow.run\<close>. The keys read
  with \<open>requisition[...]\<close> are \<open>budget_code\<close>, \<open>total\<close>, \<open>requisition_id\<close> and \<open>urgency\<close>;
  \<open>vendor_id\<close> is read with \<open>.get("vendor_id", "")\<close>. A key that may be absent is an
  option (\<open>None\<close> is the absent key). The record stands for the dictionaries that have
  the keys \<open>requisition_id\<close>, \<open>total\<close> and \<open>urgency\<close>: the \<open>KeyError\<close> that a subscript
  raises on a dictionary without one of these is not represented, the one for
  \<open>budget_code\<close>, the first key read, is.
\<close>

record requisition =
  requisition_id :: string
  budget_code :: "string option"
  total :: real
  urgency :: string
  vendor_id :: "string option"

text \<open>One entry of the list returned by \<open>determine_approvers\<close>.\<close>

record approver =
  level :: nat
  role :: string
  approver_id :: string
  approver_email :: string

section \<open>Approver chain: \<open>determine_approvers\<close>\<close>

definition manager :: approver where
  "manager = \<lparr>level = 1, role = ''manager'', approver_id = ''manager_001'',
     approver_email = ''manager@university.edu''\<rparr>"

definition director :: approver where
  "director = \<lparr>level = 2, role = ''director'', approver_id = ''director_001'',
     approver_email = ''director@university.edu''\<rparr>"

definition vp :: approver where
  "vp = \<lparr>level = 3, role = ''vp'', approver_id = ''vp_001'',
     approver_email = ''vp@university.edu''\<rparr>"

definition cfo :: approver where
  "cfo = \<lparr>level = 4, role = ''cfo'', approver_id = ''cfo_001'',
     approver_email = ''cfo@university.edu''\<rparr>"

text \<open>Four independent \<open>if total > ...: approvers.append(...)\<close> statements, in order.\<close>

definition determine_approvers :: "requisition \<Rightarrow> approver list" where
  "determine_approvers req =
     (let approvers0 = [];
          approvers1 = (if total req > 500 then approvers0 @ [manager] else approvers0);
          approvers2 = (if total req > 5000 then approvers1 @ [director] else approvers1);
          approvers3 = (if total req > 25000 then approvers2 @ [vp] else approvers2);
          approvers4 = (if total req > 100000 then approvers3 @ [cfo] else approvers3)
      in approvers4)"

definition full_ladder :: "approver list" where
  "full_ladder = [manager, director, vp, cfo]"

section \<open>Requisition approval workflow: collaborators and state\<close>

text \<open>
  The dictionary built at the head of the per-approver loop (\<open>approval_request\<close>) and
  passed to \<open>send_approval_notification\<close> and \<open>escalate_approval\<close>.
\<close>

record approval_request =
  ar_requisition_id :: string
  ar_approver_id :: string
  ar_approver_email :: string
  ar_amount :: real
  ar_level :: nat

text \<open>The result of the \<open>validate_budget\<close> activity.\<close>

record budget_check =
  available :: bool
  bc_budget_code :: string
  requested :: real
  remaining :: real

definition budget_check_dict :: "budget_check \<Rightarrow> pydict" where
  "budget_check_dict b =
     [(''available'', PyBool (available b)), (''budget_code'', PyStr (bc_budget_code b)),
      (''requested'', PyNum (requested b)), (''remaining'', PyNum (remaining b))]"

text \<open>
  The result of the \<open>check_approval_status\<close> activity, as far as the workflow reads it:
  \<open>status.get("approved")\<close>, \<open>status.get("rejected")\<close> (both by truth value) and
  \<open>status.get("reason", "Rejected by approver")\<close> (\<open>None\<close> is the absent key).
\<close>

record approval_status =
  st_approved :: bool
  st_rejected :: bool
  st_reason :: "pyval option"

definition undecided :: "approval_status \<Rightarrow> bool" where
  "undecided st = (\<not> st_approved st \<and> \<not> st_rejected st)"

text \<open>
  The activities whose results come from outside the workflow are parameters of the model.
  The workflow passes \<open>check_approval_status\<close> only the requisition identifier; its answer
  may differ from call to call, so the collaborator also receives the number of status
  checks the run has already made. Activities are taken to complete (no activity failure),
  and to take no workflow time: the workflow clock advances in \<open>workflow.sleep\<close> only.
\<close>

record env =
  validate_budget :: "string \<Rightarrow> real \<Rightarrow> budget_check"
  check_approval_status :: "string \<Rightarrow> nat \<Rightarrow> approval_status"
  send_po_to_vendor :: "string \<Rightarrow> string \<Rightarrow> bool"

text \<open>The activity bodies as the source has them (placeholders with constant answers).\<close>

definition stub_env :: env where
  "stub_env =
     \<lparr>validate_budget = (\<lambda>code amount.
        \<lparr>available = True, bc_budget_code = code, requested = amount, remaining = 50000\<rparr>),
      check_approval_status = (\<lambda>rid k.
        \<lparr>st_approved = False, st_rejected = False, st_reason = None\<rparr>),
      send_po_to_vendor = (\<lambda>po vendor. True)\<rparr>"

text \<open>Every activity the workflow schedules and every timer it sets, in order.\<close>

datatype activity =
    ValidateBudget string real
  | DetermineApprovers requisition
  | SendApprovalNotification approval_request
  | CheckApprovalStatus string
  | EscalateApproval approval_request
  | GeneratePurchaseOrder string
  | SendPoToVendor string string
  | Sleep nat

text \<open>
  The workflow object: the four attributes set in \<open>__init__\<close>, the workflow clock
  (\<open>workflow.now()\<close>, in minutes), the number of status checks made, the log of
  scheduled activities and timers, and the log of the values the local variable
  \<open>deadline\<close> takes, with the level of the approver it is computed for.
\<close>

record workflow =
  approved :: bool
  rejected :: bool
  rejection_reason :: pyval
  current_step :: string
  now :: nat
  checks :: nat
  calls :: "activity list"
  deadlines :: "(nat \<times> nat) list"

definition init_workflow :: "nat \<Rightarrow> workflow" where
  "init_workflow start =
     \<lparr>approved = False, rejected = False, rejection_reason = PyNone,
      current_step = ''initialized'', now = start, checks = 0, calls = [], deadlines = []\<rparr>"

definition execute_activity :: "activity \<Rightarrow> workflow \<Rightarrow> workflow" where
  "execute_activity a w = w\<lparr>calls := calls w @ [a]\<rparr>"

definition sleep :: "nat \<Rightarrow> workflow \<Rightarrow> workflow" where
  "sleep d w = w\<lparr>now := now w + d, calls := calls w @ [Sleep d]\<rparr>"

definition hours :: "nat \<Rightarrow> nat" where
  "hours h = 60 * h"

definition check_interval :: nat where
  "check_interval = 15"

text \<open>\<open>generate_purchase_order\<close>: \<open>f"PO-{requisition_id[-6:]}"\<close>.\<close>

definition generate_purchase_order :: "string \<Rightarrow> string" where
  "generate_purchase_order rid = ''PO-'' @ drop (length rid - 6) rid"

text \<open>The signal handler and the query of the workflow class.\<close>

definition approval_received :: "string \<Rightarrow> bool \<Rightarrow> pyval \<Rightarrow> workflow \<Rightarrow> workflow" where
  "approval_received approver is_approved reason w =
     (if is_approved then w\<lparr>approved := True\<rparr>
      else w\<lparr>rejected := True, rejection_reason := reason\<rparr>)"

definition get_status :: "workflow \<Rightarrow> pydict" where
  "get_status w =
     [(''current_step'', PyStr (current_step w)), (''approved'', PyBool (approved w)),
      (''rejected'', PyBool (rejected w)), (''rejection_reason'', rejection_reason w)]"

section \<open>Requisition approval workflow: \<open>run\<close>\<close>

definition make_request :: "requisition \<Rightarrow> approver \<Rightarrow> approval_request" where
  "make_request req a =
     \<lparr>ar_requisition_id = requisition_id req, ar_approver_id = approver_id a,
      ar_approver_email = approver_email a, ar_amount = total req, ar_level = level a\<rparr>"

definition sla_hours :: "requisition \<Rightarrow> nat" where
  "sla_hours req = (if urgency req = ''standard'' then 48 else 8)"

definition rejected_result :: "pyval \<Rightarrow> approver \<Rightarrow> pydict" where
  "rejected_result reason a =
     [(''status'', PyStr ''rejected''), (''reason'', reason),
      (''approver'', PyStr (approver_id a))]"

definition escalated_timeout_result :: pydict where
  "escalated_timeout_result =
     [(''status'', PyStr ''escalated_timeout''),
      (''details'', PyStr ''Approval not received after escalation'')]"

text \<open>
  The polling loop \<open>while workflow.now() < deadline\<close>. The result is \<open>Some r\<close> when the loop
  body returns \<open>r\<close> from \<open>run\<close>, and \<open>None\<close> when the loop is left, by \<open>break\<close> or by its
  condition.
\<close>

function await_decision ::
  "env \<Rightarrow> requisition \<Rightarrow> approver \<Rightarrow> nat \<Rightarrow> workflow \<Rightarrow> pydict option \<times> workflow" where
  "await_decision env req a deadline w =
     (if now w < deadline then
        (let status = check_approval_status env (requisition_id req) (checks w);
             w1 = (execute_activity (CheckApprovalStatus (requisition_id req)) w)
                    \<lparr>checks := Suc (checks w)\<rparr>
         in if st_approved status then (None, w1)
            else if st_rejected status then
              (let reason = (case st_reason status of
                               None \<Rightarrow> PyStr ''Rejected by approver'' | Some r \<Rightarrow> r)
               in (Some (rejected_result reason a),
                   w1\<lparr>rejected := True, rejection_reason := reason\<rparr>))
            else await_decision env req a deadline (sleep check_interval w1))
      else (None, w))"
  by pat_completeness auto
termination
  by (relation "measure (\<lambda>(env, req, a, deadline, w). deadline - now w)")
     (auto simp: sleep_def execute_activity_def check_interval_def)

text \<open>The body of \<open>for approver in approvers\<close>, with the same result convention.\<close>

definition process_approver ::
  "env \<Rightarrow> requisition \<Rightarrow> approver \<Rightarrow> workflow \<Rightarrow> pydict option \<times> workflow" where
  "process_approver env req a w =
     (let request = make_request req a;
          w1 = execute_activity (SendApprovalNotification request) w;
          deadline = now w1 + hours (sla_hours req);
          w2 = w1\<lparr>deadlines := deadlines w1 @ [(level a, deadline)]\<rparr>
      in case await_decision env req a deadline w2 of
           (Some r, w3) \<Rightarrow> (Some r, w3)
         | (None, w3) \<Rightarrow>
             if now w3 \<ge> deadline then
               (let w4 = execute_activity (EscalateApproval request) w3;
                    w5 = sleep (hours 4) w4;
                    status = check_approval_status env (requisition_id req) (checks w5);
                    w6 = (execute_activity (CheckApprovalStatus (requisition_id req)) w5)
                           \<lparr>checks := Suc (checks w5)\<rparr>
                in if \<not> st_approved status then (Some escalated_timeout_result, w6)
                   else (None, w6))
             else (None, w3))"

fun process_approvers ::
  "env \<Rightarrow> requisition \<Rightarrow> approver list \<Rightarrow> workflow \<Rightarrow> pydict option \<times> workflow" where
  "process_approvers env req [] w = (None, w)"
| "process_approvers env req (a # rest) w =
     (case process_approver env req a w of
        (Some r, w') \<Rightarrow> (Some r, w')
      | (None, w') \<Rightarrow> process_approvers env req rest w')"

text \<open>
  \<open>RequisitionApprovalWorkflow.run\<close>. \<open>requisition["budget_code"]\<close> raises \<open>KeyError\<close> on a
  dictionary without that key; there is no other check of the requisition.
\<close>

definition run :: "env \<Rightarrow> requisition \<Rightarrow> workflow \<Rightarrow> (py_error + pydict) \<times> workflow" where
  "run env req w0 =
     (let w1 = w0\<lparr>current_step := ''validating_budget''\<rparr>
      in case budget_code req of
           None \<Rightarrow> (Inl (KeyError ''budget_code''), w1)
         | Some code \<Rightarrow>
            (let budget = validate_budget env code (total req);
                 w2 = execute_activity (ValidateBudget code (total req)) w1
             in if \<not> available budget then
                  (Inr [(''status'', PyStr ''rejected''),
                        (''reason'', PyStr ''Insufficient budget''),
                        (''details'', PyDict (budget_check_dict budget))], w2)
                else
                  (let w3 = w2\<lparr>current_step := ''determining_approvers''\<rparr>;
                       approvers = determine_approvers req;
                       w4 = execute_activity (DetermineApprovers req) w3
                   in if approvers = [] then
                        (let w5 = w4\<lparr>current_step := ''generating_po''\<rparr>;
                             po_number = generate_purchase_order (requisition_id req);
                             w6 = execute_activity
                                    (GeneratePurchaseOrder (requisition_id req)) w5
                         in (Inr [(''status'', PyStr ''complete''),
                                  (''po_number'', PyStr po_number),
                                  (''auto_approved'', PyBool True)], w6))
                      else
                        (let w5 = w4\<lparr>current_step := ''awaiting_approvals''\<rparr>
                         in case process_approvers env req approvers w5 of
                              (Some r, w6) \<Rightarrow> (Inr r, w6)
                            | (None, w6) \<Rightarrow>
                               (let w7 = w6\<lparr>approved := True,
                                             current_step := ''generating_po''\<rparr>;
                                    po_number = generate_purchase_order (requisition_id req);
                                    w8 = execute_activity
                                           (GeneratePurchaseOrder (requisition_id req)) w7;
                                    w9 = w8\<lparr>current_step := ''sending_to_vendor''\<rparr>;
                                    vendor = (case vendor_id req of
                                                None \<Rightarrow> '''' | Some v \<Rightarrow> v);
                                    sent = send_po_to_vendor env po_number vendor;
                                    w10 = execute_activity (SendPoToVendor po_number vendor) w9
                                in (Inr [(''status'', PyStr ''complete''),
                                         (''po_number'', PyStr po_number),
                                         (''sent_to_vendor'', PyBool sent)], w10))))))"

declare await_decision.simps [simp del]

text \<open>
  Vocabulary for stating what a run has scheduled: \<open>polls rid n\<close> is \<open>n\<close> rounds of the
  polling loop that found no decision (a status check, then the 15-minute sleep), and
  \<open>after_polls rid n w\<close> is the workflow \<open>w\<close> after these rounds.
\<close>

definition polls :: "string \<Rightarrow> nat \<Rightarrow> activity list" where
  "polls rid n = concat (replicate n [CheckApprovalStatus rid, Sleep check_interval])"

definition after_polls :: "string \<Rightarrow> nat \<Rightarrow> workflow \<Rightarrow> workflow" where
  "after_polls rid n w =
     w\<lparr>now := now w + check_interval * n, checks := checks w + n,
       calls := calls w @ polls rid n\<rparr>"

fun is_notification :: "activity \<Rightarrow> bool" where
  "is_notification (SendApprovalNotification r) = True"
| "is_notification _ = False"

fun is_escalation :: "activity \<Rightarrow> bool" where
  "is_escalation (EscalateApproval r) = True"
| "is_escalation _ = False"

fun is_vendor_transmission :: "activity \<Rightarrow> bool" where
  "is_vendor_transmission (SendPoToVendor po vendor) = True"
| "is_vendor_transmission _ = False"

text \<open>The reason a rejection carries: \<open>status.get("reason", "Rejected by approver")\<close>.\<close>

definition reason_of :: "approval_status \<Rightarrow> pyval" where
  "reason_of st = (case st_reason st of None \<Rightarrow> PyStr ''Rejected by approver'' | Some r \<Rightarrow> r)"

section \<open>Requisition approval workflow: example collaborators and requisitions\<close>

text \<open>A status collaborator that reports nothing at the first check and a rejection after.\<close>

definition rejecting_env :: env where
  "rejecting_env = stub_env\<lparr>check_approval_status := (\<lambda>rid k.
     if k = 0 then \<lparr>st_approved = False, st_rejected = False, st_reason = None\<rparr>
     else \<lparr>st_approved = False, st_rejected = True,
           st_reason = Some (PyStr ''Over budget for the quarter'')\<rparr>)\<rparr>"

text \<open>A status collaborator that reports nothing at the first check and an approval after.\<close>

definition late_approval_env :: env where
  "late_approval_env = stub_env\<lparr>check_approval_status := (\<lambda>rid k.
     \<lparr>st_approved = (k \<noteq> 0), st_rejected = False, st_reason = None\<rparr>)\<rparr>"

text \<open>
  A status collaborator that reports an approval at the check after the first and from
  the check numbered 33 on, and nothing at the other checks.
\<close>

definition slow_director_env :: env where
  "slow_director_env = stub_env\<lparr>check_approval_status := (\<lambda>rid k.
     \<lparr>st_approved = (k = 1 \<or> 33 \<le> k), st_rejected = False, st_reason = None\<rparr>)\<rparr>"

text \<open>A status collaborator that reports an approval from the check numbered 32 on.\<close>

definition overdue_approval_env :: env where
  "overdue_approval_env = stub_env\<lparr>check_approval_status := (\<lambda>rid k.
     \<lparr>st_approved = (32 \<le> k), st_rejected = False, st_reason = None\<rparr>)\<rparr>"

text \<open>A status collaborator whose status has both flags set.\<close>

definition both_flags_env :: env where
  "both_flags_env = stub_env\<lparr>check_approval_status := (\<lambda>rid k.
     \<lparr>st_approved = True, st_rejected = True, st_reason = Some (PyStr ''Duplicate order'')\<rparr>)\<rparr>"

definition req_300 :: requisition where
  "req_300 = \<lparr>requisition_id = ''REQ-000300'', budget_code = Some ''CHEM-2024-001'',
     total = 300, urgency = ''standard'', vendor_id = Some ''vendor_001''\<rparr>"

definition req_1000 :: requisition where
  "req_1000 = \<lparr>requisition_id = ''REQ-001000'', budget_code = Some ''CHEM-2024-001'',
     total = 1000, urgency = ''rush'', vendor_id = Some ''vendor_001''\<rparr>"

definition req_6000 :: requisition where
  "req_6000 = \<lparr>requisition_id = ''REQ-006000'', budget_code = Some ''CHEM-2024-001'',
     total = 6000, urgency = ''rush'', vendor_id = None\<rparr>"

text \<open>A requisition with an empty budget code and a total of zero.\<close>

definition req_malformed :: requisition where
  "req_malformed = \<lparr>requisition_id = ''REQ-000000'', budget_code = Some '''',
     total = 0, urgency = ''standard'', vendor_id = None\<rparr>"

section \<open>Invoice validation workflow\<close>

text \<open>
  The results of the three checks, as far as \<open>InvoiceValidationWorkflow.run\<close> reads them:
  the flag by subscript, the list of issues with \<open>.get(key, [])\<close> (\<open>None\<close> is the absent
  key). \<open>po_match["po_number"]\<close> is whatever the invoice had, possibly Python's \<open>None\<close>.
\<close>

record po_match =
  found :: bool
  po_number :: "string option"

record line_matches =
  all_matched :: bool
  matched_lines :: nat
  mismatches :: "pyval list option"

record price_validation =
  all_valid :: bool
  violations :: "pyval list option"

record receipt_check =
  all_received :: bool
  issues :: "pyval list option"

text \<open>The activities that answer from outside the workflow; an invoice is a dictionary.\<close>

record invoice_env =
  parse_invoice :: "string \<Rightarrow> pydict"
  find_matching_po :: "pydict \<Rightarrow> po_match"
  match_invoice_lines :: "pydict \<Rightarrow> string option \<Rightarrow> line_matches"
  validate_contract_prices :: "pydict \<Rightarrow> line_matches \<Rightarrow> price_validation"
  verify_receipts :: "pydict \<Rightarrow> string option \<Rightarrow> receipt_check"

datatype invoice_activity =
    ParseInvoice string
  | FindMatchingPo pydict
  | MatchInvoiceLines pydict "string option"
  | ValidateContractPrices pydict line_matches
  | VerifyReceipts pydict "string option"
  | ApproveInvoice string
  | CreateException string line_matches price_validation receipt_check

text \<open>\<open>create_exception\<close>: \<open>f"EXC-{invoice_id[-6:]}"\<close>.\<close>

definition create_exception :: "string \<Rightarrow> string" where
  "create_exception invoice_id = ''EXC-'' @ drop (length invoice_id - 6) invoice_id"

definition get_list :: "pyval list option \<Rightarrow> pyval" where
  "get_list v = PyList (case v of None \<Rightarrow> [] | Some xs \<Rightarrow> xs)"

text \<open>
  \<open>InvoiceValidationWorkflow.run\<close>: the result dictionary and the activities scheduled,
  in order.
\<close>

definition invoice_run :: "invoice_env \<Rightarrow> string \<Rightarrow> pydict \<times> invoice_activity list" where
  "invoice_run env invoice_id =
     (let invoice = parse_invoice env invoice_id;
          t1 = [ParseInvoice invoice_id];
          match = find_matching_po env invoice;
          t2 = t1 @ [FindMatchingPo invoice]
      in if \<not> found match then
           ([(''status'', PyStr ''no_po_match''), (''invoice_id'', PyStr invoice_id),
             (''requires_manual_review'', PyBool True)], t2)
         else
           (let lines = match_invoice_lines env invoice (po_number match);
                t3 = t2 @ [MatchInvoiceLines invoice (po_number match)];
                prices = validate_contract_prices env invoice lines;
                t4 = t3 @ [ValidateContractPrices invoice lines];
                receipt = verify_receipts env invoice (po_number match);
                t5 = t4 @ [VerifyReceipts invoice (po_number match)]
            in if all_matched lines \<and> all_valid prices \<and> all_received receipt then
                 ([(''status'', PyStr ''approved''), (''auto'', PyBool True)],
                  t5 @ [ApproveInvoice invoice_id])
               else
                 ([(''status'', PyStr ''exception''),
                   (''exception_id'', PyStr (create_exception invoice_id)),
                   (''issues'', PyDict
                      [(''line_mismatches'', get_list (mismatches lines)),
                       (''price_violations'', get_list (violations prices)),
                       (''receipt_issues'', get_list (issues receipt))])],
                  t5 @ [CreateException invoice_id lines prices receipt])))"

text \<open>The activity bodies as the source has them, and a variant that finds no order.\<close>

definition stub_invoice_env :: invoice_env where
  "stub_invoice_env =
     \<lparr>parse_invoice = (\<lambda>invoice_id.
        [(''invoice_id'', PyStr invoice_id), (''invoice_number'', PyStr ''INV-12345''),
         (''vendor_id'', PyStr ''vendor_001''), (''po_number'', PyStr ''PO-123456''),
         (''total'', PyNum 5000), (''line_items'', PyList [])]),
      find_matching_po = (\<lambda>invoice.
        \<lparr>found = True,
         po_number = (case map_of invoice ''po_number'' of
                        Some (PyStr po) \<Rightarrow> Some po | _ \<Rightarrow> None)\<rparr>),
      match_invoice_lines = (\<lambda>invoice po.
        \<lparr>all_matched = True,
         matched_lines = (case map_of invoice ''line_items'' of
                            Some (PyList xs) \<Rightarrow> length xs | _ \<Rightarrow> 0),
         mismatches = Some []\<rparr>),
      validate_contract_prices = (\<lambda>invoice lines. \<lparr>all_valid = True, violations = Some []\<rparr>),
      verify_receipts = (\<lambda>invoice po. \<lparr>all_received = True, issues = Some []\<rparr>)\<rparr>"

definition no_po_invoice_env :: invoice_env where
  "no_po_invoice_env = stub_invoice_env\<lparr>find_matching_po :=
     (\<lambda>invoice. \<lparr>found = False, po_number = None\<rparr>)\<rparr>"

definition short_receipt_invoice_env :: invoice_env where
  "short_receipt_invoice_env = stub_invoice_env\<lparr>verify_receipts :=
     (\<lambda>invoice po. \<lparr>all_received = False,
        issues = Some [PyStr ''line 2: 3 of 5 units received'']\<rparr>)\<rparr>"

section \<open>agents/core/base_agent.py: configuration, messages and state\<close>

record agent_config =
  agent_id :: string
  name :: string
  tier :: int
  category :: string
  model :: string
  max_tokens :: int
  temperature :: real
  max_iterations :: int
  human_in_loop_threshold :: real

text \<open>\<open>AgentConfig(...)\<close> with the defaults of the dataclass.\<close>

definition AgentConfig :: "string \<Rightarrow> string \<Rightarrow> int \<Rightarrow> string \<Rightarrow> agent_config" where
  "AgentConfig aid nm t cat =
     \<lparr>agent_id = aid, name = nm, tier = t, category = cat,
      model = ''claude-sonnet-4-20250514'', max_tokens = 4096, temperature = 0,
      max_iterations = 10, human_in_loop_threshold = 0\<rparr>"

text \<open>
  A tool call proposed by the language model: a name, an identifier and the arguments;
  the code reads the arguments with \<open>tool_call.get("args", {})\<close> (\<open>None\<close> is the absent
  key).
\<close>

record tool_call =
  tc_name :: string
  tc_args :: "pydict option"
  tc_id :: string

definition args_of :: "tool_call \<Rightarrow> pydict" where
  "args_of tc = (case tc_args tc of None \<Rightarrow> [] | Some d \<Rightarrow> d)"

datatype message =
    HumanMessage string
  | AIMessage string "tool_call list"
  | ToolMessage string string

record agent_state =
  messages :: "message list"
  context_dict :: pydict
  user_id :: string
  university_id :: string
  current_agent :: string
  tool_results :: "message list"
  pending_approval :: "(string \<times> tool_call list) option"
  completed :: bool

section \<open>Human gate: \<open>_requires_human_review\<close>\<close>

text \<open>
  Python's \<open>amount > threshold\<close> for a threshold that is a number: defined on numbers and
  on booleans (which are the integers 0 and 1), a \<open>TypeError\<close> on every other value.
\<close>

fun py_greater :: "pyval \<Rightarrow> real \<Rightarrow> py_error + bool" where
  "py_greater (PyNum x) t = Inr (x > t)"
| "py_greater (PyBool b) t = Inr ((if b then 1 else 0) > t)"
| "py_greater _ t = Inl TypeError"

text \<open>\<open>ProcurementAgent._requires_human_review\<close>, the default of every agent class.\<close>

definition requires_human_review :: "agent_config \<Rightarrow> tool_call \<Rightarrow> py_error + bool" where
  "requires_human_review config tool_call =
     (if human_in_loop_threshold config \<le> 0 then Inr False
      else case map_of (args_of tool_call) ''amount'' of
             None \<Rightarrow> Inr False
           | Some amount \<Rightarrow>
               (case py_greater amount (human_in_loop_threshold config) of
                  Inl e \<Rightarrow> Inl e
                | Inr exceeds \<Rightarrow> if exceeds then Inr True else Inr False))"

text \<open>\<open>PriceWatchAgent._requires_human_review\<close>, which overrides the default.\<close>

definition PriceWatchAgent_requires_human_review :: "tool_call \<Rightarrow> py_error + bool" where
  "PriceWatchAgent_requires_human_review tool_call =
     (if tc_name tool_call = ''send_slack_alert'' then
        (let level = (case map_of (args_of tool_call) ''level'' of
                        None \<Rightarrow> PyStr ''info'' | Some v \<Rightarrow> v)
         in Inr (level = PyStr ''critical''))
      else Inr False)"

text \<open>The configuration \<open>PriceWatchAgent.__init__\<close> builds.\<close>

definition price_watch_config :: agent_config where
  "price_watch_config =
     (AgentConfig ''price-watch'' ''PriceWatch Agent'' 1 ''Core Price Intelligence'')
       \<lparr>human_in_loop_threshold := 0\<rparr>"

text \<open>
  The agent classes that the two methods above belong to, and the method a call of
  \<open>self._requires_human_review\<close> reaches in each.
\<close>

datatype agent_class = ProcurementAgent | PriceWatchAgent

fun human_gate :: "agent_class \<Rightarrow> agent_config \<Rightarrow> tool_call \<Rightarrow> py_error + bool" where
  "human_gate ProcurementAgent config tool_call = requires_human_review config tool_call"
| "human_gate PriceWatchAgent config tool_call =
     PriceWatchAgent_requires_human_review tool_call"

text \<open>The tool calls of the test \<open>test_human_review_for_critical_alerts\<close>.\<close>

definition critical_call :: tool_call where
  "critical_call = \<lparr>tc_name = ''send_slack_alert'',
     tc_args = Some [(''level'', PyStr ''critical'')], tc_id = ''call_1''\<rparr>"

definition info_call :: tool_call where
  "info_call = \<lparr>tc_name = ''send_slack_alert'',
     tc_args = Some [(''level'', PyStr ''info'')], tc_id = ''call_2''\<rparr>"

section \<open>Decision loop: the graph of \<open>_build_graph\<close>\<close>

text \<open>
  The language model and the tool executor are parameters: the model maps the
  conversation to its reply (a text and the tool calls it proposes), the executor maps a
  tool call to the text of its result.
\<close>

record agent_env =
  llm :: "message list \<Rightarrow> string \<times> tool_call list"
  tool_executor :: "tool_call \<Rightarrow> string"

definition call_agent :: "agent_env \<Rightarrow> agent_state \<Rightarrow> agent_state" where
  "call_agent orc st =
     (let (content, proposed) = llm orc (messages st)
      in st\<lparr>messages := messages st @ [AIMessage content proposed]\<rparr>)"

text \<open>
  \<open>state["messages"][-1]\<close>, an \<open>IndexError\<close> on an empty conversation, and the tool calls
  of a message (\<open>hasattr(last_message, "tool_calls")\<close>).
\<close>

definition last_message :: "agent_state \<Rightarrow> py_error + message" where
  "last_message st = (if messages st = [] then Inl IndexError else Inr (last (messages st)))"

fun tool_calls_of :: "message \<Rightarrow> tool_call list" where
  "tool_calls_of (AIMessage content proposed) = proposed"
| "tool_calls_of _ = []"

definition call_tools :: "agent_env \<Rightarrow> agent_state \<Rightarrow> py_error + agent_state" where
  "call_tools orc st =
     (case last_message st of
        Inl e \<Rightarrow> Inl e
      | Inr m \<Rightarrow>
          (let proposed = tool_calls_of m
           in if proposed = [] then Inr (st\<lparr>tool_results := []\<rparr>)
              else (let results =
                          map (\<lambda>tc. ToolMessage (tool_executor orc tc) (tc_id tc)) proposed
                    in Inr (st\<lparr>messages := messages st @ results,
                               tool_results := results\<rparr>))))"

definition human_review :: "agent_config \<Rightarrow> agent_state \<Rightarrow> py_error + agent_state" where
  "human_review config st =
     (case last_message st of
        Inl e \<Rightarrow> Inl e
      | Inr m \<Rightarrow> Inr (st\<lparr>pending_approval := Some (agent_id config, tool_calls_of m)\<rparr>))"

datatype route = Tools | HumanReview | End

text \<open>
  The loop \<open>for tool_call in last_message.tool_calls\<close> of \<open>_should_continue\<close>: the first
  call that requires review decides; an exception raised by the check is passed on.
\<close>

fun any_requires_review :: "(tool_call \<Rightarrow> py_error + bool) \<Rightarrow> tool_call list \<Rightarrow> py_error + bool"
  where
  "any_requires_review gate [] = Inr False"
| "any_requires_review gate (tc # rest) =
     (case gate tc of
        Inl e \<Rightarrow> Inl e
      | Inr required \<Rightarrow> if required then Inr True else any_requires_review gate rest)"

definition should_continue ::
  "agent_class \<Rightarrow> agent_config \<Rightarrow> agent_state \<Rightarrow> py_error + route" where
  "should_continue cls config st =
     (case last_message st of
        Inl e \<Rightarrow> Inl e
      | Inr m \<Rightarrow>
          (let proposed = tool_calls_of m
           in if proposed \<noteq> [] then
                (case any_requires_review (human_gate cls config) proposed of
                   Inl e \<Rightarrow> Inl e
                 | Inr required \<Rightarrow> if required then Inr HumanReview else Inr Tools)
              else Inr End))"

text \<open>
  Running the compiled graph: entry point \<open>agent\<close>, the conditional edge of
  \<open>_should_continue\<close>, and the edges from \<open>tools\<close> and from \<open>human_review\<close> back to \<open>agent\<close>.
  The code passes no limit to the graph (\<open>workflow.compile()\<close>, \<open>self.graph.ainvoke(initial_state)\<close>),
  so the number of rounds the graph runtime allows is a parameter of its own here, the
  first argument; \<open>OutOfSteps\<close> is the runtime giving up.
\<close>

datatype graph_outcome = Finished agent_state | Raised py_error | OutOfSteps agent_state

fun run_graph ::
  "nat \<Rightarrow> agent_class \<Rightarrow> agent_config \<Rightarrow> agent_env \<Rightarrow> agent_state \<Rightarrow> graph_outcome" where
  "run_graph 0 cls config orc st = OutOfSteps st"
| "run_graph (Suc steps) cls config orc st =
     (let st1 = call_agent orc st
      in case should_continue cls config st1 of
           Inl e \<Rightarrow> Raised e
         | Inr End \<Rightarrow> Finished st1
         | Inr Tools \<Rightarrow>
             (case call_tools orc st1 of
                Inl e \<Rightarrow> Raised e
              | Inr st2 \<Rightarrow> run_graph steps cls config orc st2)
         | Inr HumanReview \<Rightarrow>
             (case human_review config st1 of
                Inl e \<Rightarrow> Raised e
              | Inr st2 \<Rightarrow> run_graph steps cls config orc st2))"

text \<open>The state \<open>ProcurementAgent.run\<close> starts the graph in.\<close>

definition initial_state :: "agent_config \<Rightarrow> string \<Rightarrow> string \<Rightarrow> string \<Rightarrow> agent_state" where
  "initial_state config msg uid university =
     \<lparr>messages = [HumanMessage msg], context_dict = [], user_id = uid, university_id = university,
      current_agent = agent_id config, tool_results = [], pending_approval = None,
      completed = False\<rparr>"

text \<open>The oracle-to-tool round trips of a conversation: its tool messages.\<close>

fun is_tool_message :: "message \<Rightarrow> bool" where
  "is_tool_message (ToolMessage content call_id) = True"
| "is_tool_message _ = False"

definition round_trips :: "agent_state \<Rightarrow> nat" where
  "round_trips st = length (filter is_tool_message (messages st))"

text \<open>
  A language model that asks for one catalogue search in every reply, and the
  configuration of \<open>PriceCompareAgent\<close> (all defaults).
\<close>

definition search_call :: tool_call where
  "search_call = \<lparr>tc_name = ''search_products'',
     tc_args = Some [(''query'', PyStr ''pipettes'')], tc_id = ''call_0''\<rparr>"

definition searching_oracle :: agent_env where
  "searching_oracle =
     \<lparr>llm = (\<lambda>history. (''Searching the catalog'', [search_call])),
      tool_executor = (\<lambda>tc. ''Found 10 products matching pipettes'')\<rparr>"

definition price_compare_config :: agent_config where
  "price_compare_config =
     AgentConfig ''price-compare'' ''Price Compare Agent'' 1 ''Core Price Intelligence''"

section \<open>Approver chain: properties\<close>

lemma determine_approvers_cases:
  "determine_approvers req =
     (if total req \<le> 500 then []
      else if total req \<le> 5000 then [manager]
      else if total req \<le> 25000 then [manager, director]
      else if total req \<le> 100000 then [manager, director, vp]
      else [manager, director, vp, cfo])"
  by (simp add: determine_approvers_def Let_def)

lemma determine_approvers_length_mono:
  "total req \<le> total req' \<Longrightarrow>
     length (determine_approvers req) \<le> length (determine_approvers req')"
  by (simp add: determine_approvers_cases)

text \<open>
  C1. The chain is the threshold table with inclusive upper bounds: at most 500 gives the
  empty chain, above 500 up to 5000 the manager, above 5000 up to 25000 manager and
  director, above 25000 up to 100000 manager, director and vp, above 100000 all four.
  Hence the chain is always a prefix of the full ladder and its length is non-decreasing
  in the amount.
\<close>

theorem determine_approvers_threshold_table:
  "(total req \<le> 500 \<longrightarrow> determine_approvers req = []) \<and>
   (500 < total req \<and> total req \<le> 5000 \<longrightarrow> determine_approvers req = [manager]) \<and>
   (5000 < total req \<and> total req \<le> 25000 \<longrightarrow>
      determine_approvers req = [manager, director]) \<and>
   (25000 < total req \<and> total req \<le> 100000 \<longrightarrow>
      determine_approvers req = [manager, director, vp]) \<and>
   (100000 < total req \<longrightarrow> determine_approvers req = [manager, director, vp, cfo]) \<and>
   map role (determine_approvers req) \<in>
      {[], [''manager''], [''manager'', ''director''], [''manager'', ''director'', ''vp''],
       [''manager'', ''director'', ''vp'', ''cfo'']} \<and>
   prefix (determine_approvers req) full_ladder \<and>
   (total req \<le> total req' \<longrightarrow>
      length (determine_approvers req) \<le> length (determine_approvers req'))"
proof -
  have table: "determine_approvers req \<in>
      {[], [manager], [manager, director], [manager, director, vp],
       [manager, director, vp, cfo]}"
    by (simp add: determine_approvers_cases)
  have roles: "map role (determine_approvers req) \<in>
      {[], [''manager''], [''manager'', ''director''], [''manager'', ''director'', ''vp''],
       [''manager'', ''director'', ''vp'', ''cfo'']}"
    by (simp add: determine_approvers_cases manager_def director_def vp_def cfo_def)
  have pre: "prefix (determine_approvers req) full_ladder"
    using table by (auto simp: full_ladder_def)
  show ?thesis
    using roles pre determine_approvers_length_mono [of req req']
    by (simp add: determine_approvers_cases)
qed

theorem determine_approvers_threshold_table_witness:
  "total \<lparr>requisition_id = ''REQ-000002'', budget_code = Some ''CHEM-2024-001'',
      total = 500, urgency = ''standard'', vendor_id = None\<rparr> \<le> 500 \<and>
   determine_approvers \<lparr>requisition_id = ''REQ-000002'', budget_code = Some ''CHEM-2024-001'',
      total = 500, urgency = ''standard'', vendor_id = None\<rparr> = [] \<and>
   total \<lparr>requisition_id = ''REQ-000002'', budget_code = Some ''CHEM-2024-001'',
      total = 500, urgency = ''standard'', vendor_id = None\<rparr>
   \<le> total \<lparr>requisition_id = ''REQ-000001'', budget_code = Some ''CHEM-2024-001'',
      total = 30000, urgency = ''rush'', vendor_id = None\<rparr> \<and>
   length (determine_approvers \<lparr>requisition_id = ''REQ-000002'',
      budget_code = Some ''CHEM-2024-001'', total = 500, urgency = ''standard'',
      vendor_id = None\<rparr>)
   \<le> length (determine_approvers \<lparr>requisition_id = ''REQ-000001'',
      budget_code = Some ''CHEM-2024-001'', total = 30000, urgency = ''rush'',
      vendor_id = None\<rparr>)"
  using determine_approvers_threshold_table
    [of "\<lparr>requisition_id = ''REQ-000002'', budget_code = Some ''CHEM-2024-001'',
          total = 500, urgency = ''standard'', vendor_id = None\<rparr>"
        "\<lparr>requisition_id = ''REQ-000001'', budget_code = Some ''CHEM-2024-001'',
          total = 30000, urgency = ''rush'', vendor_id = None\<rparr>"]
  by simp

section \<open>Requisition approval workflow: the polling loop and one approver\<close>


lemma polls_Suc:
  "polls rid (Suc n) = CheckApprovalStatus rid # Sleep check_interval # polls rid n"
  by (simp add: polls_def)

lemma after_polls_0: "after_polls rid 0 w = w"
  by (simp add: after_polls_def polls_def)

lemma after_polls_Suc:
  "after_polls rid n (sleep check_interval
      ((execute_activity (CheckApprovalStatus rid) w)\<lparr>checks := Suc (checks w)\<rparr>))
   = after_polls rid (Suc n) w"
  by (simp add: after_polls_def polls_Suc sleep_def execute_activity_def)

lemma after_polls_sel [simp]:
  "now (after_polls rid n w) = now w + check_interval * n"
  "checks (after_polls rid n w) = checks w + n"
  "calls (after_polls rid n w) = calls w @ polls rid n"
  "deadlines (after_polls rid n w) = deadlines w"
  "rejected (after_polls rid n w) = rejected w"
  "approved (after_polls rid n w) = approved w"
  "rejection_reason (after_polls rid n w) = rejection_reason w"
  "current_step (after_polls rid n w) = current_step w"
  by (simp_all add: after_polls_def)

lemma polls_no_notification [simp]: "filter is_notification (polls rid n) = []"
  by (induction n) (simp_all add: polls_def)

lemma polls_no_escalation [simp]: "filter is_escalation (polls rid n) = []"
  by (induction n) (simp_all add: polls_def)

lemma await_undecided:
  assumes "\<forall>j<n. undecided (check_approval_status env (requisition_id req) (checks w + j))"
    and "\<forall>j<n. now w + check_interval * j < deadline"
  shows "await_decision env req a deadline w =
         await_decision env req a deadline (after_polls (requisition_id req) n w)"
  using assms
proof (induction n arbitrary: w)
  case 0
  show ?case by (simp only: after_polls_0)
next
  case (Suc n)
  let ?rid = "requisition_id req"
  let ?w' = "sleep check_interval
      ((execute_activity (CheckApprovalStatus ?rid) w)\<lparr>checks := Suc (checks w)\<rparr>)"
  have first: "undecided (check_approval_status env ?rid (checks w))"
    using Suc.prems(1) by (metis add.right_neutral zero_less_Suc)
  have lt: "now w < deadline"
    using Suc.prems(2) by (metis add.right_neutral mult_0_right zero_less_Suc)
  have step: "await_decision env req a deadline w = await_decision env req a deadline ?w'"
    using first lt
    by (subst await_decision.simps) (simp add: undecided_def Let_def)
  have c: "checks ?w' = Suc (checks w)" and t: "now ?w' = now w + check_interval"
    by (simp_all add: sleep_def execute_activity_def)
  have p1: "\<forall>j<n. undecided (check_approval_status env ?rid (checks ?w' + j))"
  proof (intro allI impI)
    fix j assume "j < n"
    then have "Suc j < Suc n" by simp
    then have "undecided (check_approval_status env ?rid (checks w + Suc j))"
      using Suc.prems(1) by blast
    then show "undecided (check_approval_status env ?rid (checks ?w' + j))"
      by (simp add: c)
  qed
  have p2: "\<forall>j<n. now ?w' + check_interval * j < deadline"
  proof (intro allI impI)
    fix j assume "j < n"
    then have "Suc j < Suc n" by simp
    then have "now w + check_interval * Suc j < deadline"
      using Suc.prems(2) by blast
    then show "now ?w' + check_interval * j < deadline"
      by (simp add: t algebra_simps)
  qed
  show ?case
    using Suc.IH [OF p1 p2] step by (simp only: after_polls_Suc)
qed

lemma earlier_polls_in_time:
  assumes "now w + check_interval * n < deadline"
  shows "\<forall>j<n. now w + check_interval * j < deadline"
proof (intro allI impI)
  fix j :: nat assume "j < n"
  then have "check_interval * j \<le> check_interval * n" by simp
  then show "now w + check_interval * j < deadline" using assms by linarith
qed

lemma await_approved_at:
  assumes und: "\<forall>j<n. undecided (check_approval_status env (requisition_id req) (checks w + j))"
    and lt: "now w + check_interval * n < deadline"
    and ap: "st_approved (check_approval_status env (requisition_id req) (checks w + n))"
  shows "await_decision env req a deadline w =
     (None, (after_polls (requisition_id req) n w)
              \<lparr>checks := Suc (checks w + n),
                calls := calls w @ polls (requisition_id req) n
                           @ [CheckApprovalStatus (requisition_id req)]\<rparr>)"
proof -
  have "await_decision env req a deadline w =
        await_decision env req a deadline (after_polls (requisition_id req) n w)"
    using await_undecided [OF und earlier_polls_in_time [OF lt]] .
  also have "\<dots> = (None, (after_polls (requisition_id req) n w)
              \<lparr>checks := Suc (checks w + n),
                calls := calls w @ polls (requisition_id req) n
                           @ [CheckApprovalStatus (requisition_id req)]\<rparr>)"
    using lt ap
    by (subst await_decision.simps) (simp add: Let_def execute_activity_def)
  finally show ?thesis .
qed

lemma await_rejected_at:
  assumes und: "\<forall>j<n. undecided (check_approval_status env (requisition_id req) (checks w + j))"
    and lt: "now w + check_interval * n < deadline"
    and nap: "\<not> st_approved (check_approval_status env (requisition_id req) (checks w + n))"
    and rej: "st_rejected (check_approval_status env (requisition_id req) (checks w + n))"
  shows "await_decision env req a deadline w =
     (Some (rejected_result
              (reason_of (check_approval_status env (requisition_id req) (checks w + n))) a),
      (after_polls (requisition_id req) n w)
        \<lparr>checks := Suc (checks w + n),
          calls := calls w @ polls (requisition_id req) n
                     @ [CheckApprovalStatus (requisition_id req)],
          rejected := True,
          rejection_reason :=
            reason_of (check_approval_status env (requisition_id req) (checks w + n))\<rparr>)"
proof -
  have "await_decision env req a deadline w =
        await_decision env req a deadline (after_polls (requisition_id req) n w)"
    using await_undecided [OF und earlier_polls_in_time [OF lt]] .
  also have "\<dots> = (Some (rejected_result
              (reason_of (check_approval_status env (requisition_id req) (checks w + n))) a),
      (after_polls (requisition_id req) n w)
        \<lparr>checks := Suc (checks w + n),
          calls := calls w @ polls (requisition_id req) n
                     @ [CheckApprovalStatus (requisition_id req)],
          rejected := True,
          rejection_reason :=
            reason_of (check_approval_status env (requisition_id req) (checks w + n))\<rparr>)"
    using lt nap rej
    by (subst await_decision.simps) (simp add: Let_def execute_activity_def reason_of_def)
  finally show ?thesis .
qed

lemma await_expired:
  assumes und: "\<forall>j<n. undecided (check_approval_status env (requisition_id req) (checks w + j))"
    and exact: "now w + check_interval * n = deadline"
  shows "await_decision env req a deadline w = (None, after_polls (requisition_id req) n w)"
proof -
  have "\<forall>j<n. now w + check_interval * j < deadline"
  proof (intro allI impI)
    fix j :: nat assume "j < n"
    then have "check_interval * j < check_interval * n"
      by (simp add: check_interval_def)
    then show "now w + check_interval * j < deadline" using exact by linarith
  qed
  then have "await_decision env req a deadline w =
        await_decision env req a deadline (after_polls (requisition_id req) n w)"
    using await_undecided [OF und] by blast
  also have "\<dots> = (None, after_polls (requisition_id req) n w)"
    using exact by (subst await_decision.simps) simp
  finally show ?thesis .
qed


lemma process_approver_approved_at:
  assumes und: "\<forall>j<n. undecided (check_approval_status env (requisition_id req) (checks w + j))"
    and lt: "check_interval * n < hours (sla_hours req)"
    and ap: "st_approved (check_approval_status env (requisition_id req) (checks w + n))"
  shows "process_approver env req a w =
     (None, w\<lparr>now := now w + check_interval * n, checks := Suc (checks w + n),
              calls := calls w @ SendApprovalNotification (make_request req a)
                         # polls (requisition_id req) n
                         @ [CheckApprovalStatus (requisition_id req)],
              deadlines := deadlines w @ [(level a, now w + hours (sla_hours req))]\<rparr>)"
proof -
  let ?w2 = "(execute_activity (SendApprovalNotification (make_request req a)) w)
      \<lparr>deadlines := deadlines w @ [(level a, now w + hours (sla_hours req))]\<rparr>"
  have sel: "checks ?w2 = checks w" "now ?w2 = now w"
    by (simp_all add: execute_activity_def)
  have "await_decision env req a (now w + hours (sla_hours req)) ?w2 =
     (None, (after_polls (requisition_id req) n ?w2)
              \<lparr>checks := Suc (checks ?w2 + n),
                calls := calls ?w2 @ polls (requisition_id req) n
                           @ [CheckApprovalStatus (requisition_id req)]\<rparr>)"
    by (rule await_approved_at) (use und lt ap in \<open>simp_all add: sel\<close>)
  then show ?thesis
    using lt by (simp add: process_approver_def Let_def execute_activity_def after_polls_def)
qed

lemma process_approver_rejected_at:
  assumes und: "\<forall>j<n. undecided (check_approval_status env (requisition_id req) (checks w + j))"
    and lt: "check_interval * n < hours (sla_hours req)"
    and nap: "\<not> st_approved (check_approval_status env (requisition_id req) (checks w + n))"
    and rej: "st_rejected (check_approval_status env (requisition_id req) (checks w + n))"
  shows "process_approver env req a w =
     (Some (rejected_result
              (reason_of (check_approval_status env (requisition_id req) (checks w + n))) a),
      w\<lparr>now := now w + check_interval * n, checks := Suc (checks w + n),
        calls := calls w @ SendApprovalNotification (make_request req a)
                   # polls (requisition_id req) n
                   @ [CheckApprovalStatus (requisition_id req)],
        deadlines := deadlines w @ [(level a, now w + hours (sla_hours req))],
        rejected := True,
        rejection_reason :=
          reason_of (check_approval_status env (requisition_id req) (checks w + n))\<rparr>)"
proof -
  let ?w2 = "(execute_activity (SendApprovalNotification (make_request req a)) w)
      \<lparr>deadlines := deadlines w @ [(level a, now w + hours (sla_hours req))]\<rparr>"
  let ?reason = "reason_of (check_approval_status env (requisition_id req) (checks w + n))"
  have sel: "checks ?w2 = checks w" "now ?w2 = now w"
    by (simp_all add: execute_activity_def)
  have "await_decision env req a (now w + hours (sla_hours req)) ?w2 =
     (Some (rejected_result
              (reason_of (check_approval_status env (requisition_id req) (checks ?w2 + n))) a),
      (after_polls (requisition_id req) n ?w2)
        \<lparr>checks := Suc (checks ?w2 + n),
          calls := calls ?w2 @ polls (requisition_id req) n
                     @ [CheckApprovalStatus (requisition_id req)],
          rejected := True,
          rejection_reason :=
            reason_of (check_approval_status env (requisition_id req) (checks ?w2 + n))\<rparr>)"
    by (rule await_rejected_at) (use und lt nap rej in \<open>simp_all add: sel\<close>)
  then show ?thesis
    by (simp add: process_approver_def Let_def execute_activity_def after_polls_def)
qed

lemma polls_until_deadline: "check_interval * (4 * sla_hours req) = hours (sla_hours req)"
  by (simp add: check_interval_def hours_def)

lemma process_approver_expired:
  assumes und: "\<forall>j<4 * sla_hours req.
      undecided (check_approval_status env (requisition_id req) (checks w + j))"
  shows "process_approver env req a w =
     ((if st_approved (check_approval_status env (requisition_id req)
                        (checks w + 4 * sla_hours req))
       then None else Some escalated_timeout_result),
      w\<lparr>now := now w + hours (sla_hours req) + hours 4,
        checks := Suc (checks w + 4 * sla_hours req),
        calls := calls w @ SendApprovalNotification (make_request req a)
                   # polls (requisition_id req) (4 * sla_hours req)
                   @ [EscalateApproval (make_request req a), Sleep (hours 4),
                      CheckApprovalStatus (requisition_id req)],
        deadlines := deadlines w @ [(level a, now w + hours (sla_hours req))]\<rparr>)"
proof -
  let ?w2 = "(execute_activity (SendApprovalNotification (make_request req a)) w)
      \<lparr>deadlines := deadlines w @ [(level a, now w + hours (sla_hours req))]\<rparr>"
  have sel: "checks ?w2 = checks w" "now ?w2 = now w"
    by (simp_all add: execute_activity_def)
  have "await_decision env req a (now w + hours (sla_hours req)) ?w2 =
     (None, after_polls (requisition_id req) (4 * sla_hours req) ?w2)"
    by (rule await_expired) (use und in \<open>simp_all add: sel polls_until_deadline\<close>)
  then show ?thesis
    by (simp add: process_approver_def Let_def execute_activity_def after_polls_def
        sleep_def polls_until_deadline)
qed

section \<open>Requisition approval workflow: what the approver loop preserves\<close>


lemma await_deadlines: "deadlines (snd (await_decision env req a d w)) = deadlines w"
proof (induction env req a d w rule: await_decision.induct)
  case (1 env req a deadline w)
  show ?case
    using "1.IH"
    by (subst await_decision.simps)
       (simp add: Let_def sleep_def execute_activity_def)
qed

lemma await_result_status:
  "fst (await_decision env req a d w) = Some r \<Longrightarrow> map_of r ''status'' = Some (PyStr ''rejected'')"
proof (induction env req a d w rule: await_decision.induct)
  case (1 env req a deadline w)
  from "1.prems" show ?case
    using "1.IH"
    by (subst (asm) await_decision.simps)
       (auto simp: Let_def rejected_result_def split: if_splits)
qed

lemma process_approver_result_status:
  assumes "fst (process_approver env req a w) = Some r"
  shows "map_of r ''status'' = Some (PyStr ''rejected'') \<or>
         map_of r ''status'' = Some (PyStr ''escalated_timeout'')"
proof (cases "await_decision env req a (now w + hours (sla_hours req))
      ((execute_activity (SendApprovalNotification (make_request req a)) w)
         \<lparr>deadlines := deadlines w @ [(level a, now w + hours (sla_hours req))]\<rparr>)")
  case (Pair res w3)
  show ?thesis
  proof (cases res)
    case None
    with Pair assms show ?thesis
      by (auto simp: process_approver_def Let_def execute_activity_def
          escalated_timeout_result_def split: if_splits)
  next
    case (Some r')
    with Pair assms have "r' = r"
      by (simp add: process_approver_def Let_def execute_activity_def)
    moreover have "map_of r' ''status'' = Some (PyStr ''rejected'')"
      using await_result_status [of env req a _ _ r'] Pair Some by (metis fst_conv)
    ultimately show ?thesis by simp
  qed
qed

lemma process_approvers_result_status:
  "fst (process_approvers env req as w) = Some r \<Longrightarrow>
     map_of r ''status'' = Some (PyStr ''rejected'') \<or>
     map_of r ''status'' = Some (PyStr ''escalated_timeout'')"
proof (induction as arbitrary: w)
  case Nil
  then show ?case by simp
next
  case (Cons a as)
  obtain res w' where pa: "process_approver env req a w = (res, w')"
    by (cases "process_approver env req a w")
  show ?case
  proof (cases res)
    case None
    with pa Cons.prems have "fst (process_approvers env req as w') = Some r" by simp
    then show ?thesis by (rule Cons.IH)
  next
    case (Some r')
    with pa Cons.prems have "r' = r" by simp
    with pa Some show ?thesis
      using process_approver_result_status [of env req a w r] by simp
  qed
qed

lemma process_approvers_append:
  "process_approvers env req (pre @ post) w =
     (case process_approvers env req pre w of
        (Some r, w') \<Rightarrow> (Some r, w')
      | (None, w') \<Rightarrow> process_approvers env req post w')"
proof (induction pre arbitrary: w)
  case Nil
  show ?case by simp
next
  case (Cons a pre)
  show ?case
    by (cases "process_approver env req a w") (auto simp: Cons.IH split: option.splits)
qed


lemma await_calls_prefix: "prefix (calls w) (calls (snd (await_decision env req a d w)))"
proof (induction env req a d w rule: await_decision.induct)
  case (1 env req a deadline w)
  let ?st = "check_approval_status env (requisition_id req) (checks w)"
  let ?next = "sleep check_interval
      ((execute_activity (CheckApprovalStatus (requisition_id req)) w)
         \<lparr>checks := Suc (checks w)\<rparr>)"
  show ?case
  proof (cases "now w < deadline \<and> \<not> st_approved ?st \<and> \<not> st_rejected ?st")
    case True
    then have "prefix (calls ?next) (calls (snd (await_decision env req a deadline ?next)))"
      using "1.IH" [of ?st] by simp
    moreover have "prefix (calls w) (calls ?next)"
      by (simp add: sleep_def execute_activity_def)
    ultimately have "prefix (calls w) (calls (snd (await_decision env req a deadline ?next)))"
      by (rule prefix_order.trans [rotated])
    then show ?thesis
      using True by (subst await_decision.simps) (simp add: Let_def)
  next
    case False
    then show ?thesis
      by (subst await_decision.simps) (auto simp: Let_def execute_activity_def)
  qed
qed

lemma process_approver_calls_prefix:
  "prefix (calls w) (calls (snd (process_approver env req a w)))"
proof -
  let ?d = "now w + hours (sla_hours req)"
  let ?w2 = "(execute_activity (SendApprovalNotification (make_request req a)) w)
      \<lparr>deadlines := deadlines w @ [(level a, ?d)]\<rparr>"
  obtain res w3 where aw: "await_decision env req a ?d ?w2 = (res, w3)"
    by (cases "await_decision env req a ?d ?w2")
  have "prefix (calls ?w2) (calls w3)"
    using await_calls_prefix [of ?w2 env req a ?d] aw by simp
  moreover have "prefix (calls w) (calls ?w2)"
    by (simp add: execute_activity_def)
  ultimately have w3: "prefix (calls w) (calls w3)"
    by (rule prefix_order.trans [rotated])
  then have "prefix (calls w) (calls w3 @ ext)" for ext
    by (rule prefix_prefix)
  with w3 show ?thesis
    using aw
    by (cases res)
       (simp_all add: process_approver_def Let_def execute_activity_def sleep_def)
qed

lemma process_approvers_calls_prefix:
  "prefix (calls w) (calls (snd (process_approvers env req as w)))"
proof (induction as arbitrary: w)
  case Nil
  show ?case by simp
next
  case (Cons a as)
  obtain res w' where pa: "process_approver env req a w = (res, w')"
    by (cases "process_approver env req a w")
  have step: "prefix (calls w) (calls w')"
    using process_approver_calls_prefix [of w env req a] pa by simp
  show ?case
  proof (cases res)
    case None
    have "prefix (calls w') (calls (snd (process_approvers env req as w')))"
      by (rule Cons.IH)
    with step have "prefix (calls w) (calls (snd (process_approvers env req as w')))"
      by (rule prefix_order.trans)
    with pa None show ?thesis by simp
  next
    case (Some r)
    with pa step show ?thesis by simp
  qed
qed
section \<open>Requisition approval workflow: the whole run\<close>

lemma run_without_budget_code:
  "budget_code req = None \<Longrightarrow>
     run env req w0 = (Inl (KeyError ''budget_code''), w0\<lparr>current_step := ''validating_budget''\<rparr>)"
  by (simp add: run_def Let_def)

lemma run_auto_approved:
  assumes "budget_code req = Some code"
    and "available (validate_budget env code (total req))"
    and "determine_approvers req = []"
  shows "run env req w0 =
     (Inr [(''status'', PyStr ''complete''),
           (''po_number'', PyStr (generate_purchase_order (requisition_id req))),
           (''auto_approved'', PyBool True)],
      w0\<lparr>current_step := ''generating_po'',
         calls := calls w0 @ [ValidateBudget code (total req), DetermineApprovers req,
                             GeneratePurchaseOrder (requisition_id req)]\<rparr>)"
  using assms by (simp add: run_def Let_def execute_activity_def)

lemma run_with_approvers:
  assumes "budget_code req = Some code"
    and "available (validate_budget env code (total req))"
    and "determine_approvers req \<noteq> []"
  shows "run env req w0 =
     (case process_approvers env req (determine_approvers req)
             (w0\<lparr>calls := calls w0 @ [ValidateBudget code (total req),
                                     DetermineApprovers req],
                 current_step := ''awaiting_approvals''\<rparr>) of
        (Some r, w6) \<Rightarrow> (Inr r, w6)
      | (None, w6) \<Rightarrow>
          (Inr [(''status'', PyStr ''complete''),
                (''po_number'', PyStr (generate_purchase_order (requisition_id req))),
                (''sent_to_vendor'', PyBool (send_po_to_vendor env
                    (generate_purchase_order (requisition_id req))
                    (case vendor_id req of None \<Rightarrow> '''' | Some v \<Rightarrow> v)))],
           w6\<lparr>approved := True, current_step := ''sending_to_vendor'',
              calls := calls w6 @ [GeneratePurchaseOrder (requisition_id req),
                 SendPoToVendor (generate_purchase_order (requisition_id req))
                   (case vendor_id req of None \<Rightarrow> '''' | Some v \<Rightarrow> v)]\<rparr>))"
proof -
  let ?w5 = "w0\<lparr>calls := calls w0 @ [ValidateBudget code (total req), DetermineApprovers req],
      current_step := ''awaiting_approvals''\<rparr>"
  obtain res w6 where pa: "process_approvers env req (determine_approvers req) ?w5 = (res, w6)"
    by (cases "process_approvers env req (determine_approvers req) ?w5")
  show ?thesis
    using assms pa by (cases res) (simp_all add: run_def Let_def execute_activity_def)
qed

lemma run_budget_rejected:
  assumes "budget_code req = Some code"
    and "\<not> available (validate_budget env code (total req))"
  shows "run env req w0 =
     (Inr [(''status'', PyStr ''rejected''), (''reason'', PyStr ''Insufficient budget''),
           (''details'', PyDict (budget_check_dict (validate_budget env code (total req))))],
      w0\<lparr>current_step := ''validating_budget'',
         calls := calls w0 @ [ValidateBudget code (total req)]\<rparr>)"
  using assms by (simp add: run_def Let_def execute_activity_def)

lemma run_enters_pipeline:
  assumes "budget_code req = Some code"
  shows "(\<exists>r. fst (run env req w0) = Inr r) \<and>
         prefix (calls w0 @ [ValidateBudget code (total req)]) (calls (snd (run env req w0))) \<and>
         (available (validate_budget env code (total req)) \<longrightarrow>
            prefix (calls w0 @ [ValidateBudget code (total req), DetermineApprovers req])
              (calls (snd (run env req w0))))"
proof (cases "available (validate_budget env code (total req))")
  case False
  then show ?thesis
    using run_budget_rejected [OF assms False, of w0] by simp
next
  case True
  show ?thesis
  proof (cases "determine_approvers req = []")
    case e: True
    show ?thesis
      using run_auto_approved [OF assms True e, of w0] by simp
  next
    case ne: False
    let ?w5 = "w0\<lparr>calls := calls w0 @ [ValidateBudget code (total req), DetermineApprovers req],
      current_step := ''awaiting_approvals''\<rparr>"
    obtain res w6 where
      pa: "process_approvers env req (determine_approvers req) ?w5 = (res, w6)"
      by (cases "process_approvers env req (determine_approvers req) ?w5")
    have "prefix (calls ?w5) (calls w6)"
      using process_approvers_calls_prefix [of ?w5 env req "determine_approvers req"] pa
      by simp
    then have long: "prefix (calls w0 @ [ValidateBudget code (total req),
        DetermineApprovers req]) (calls w6)"
      by simp
    have "prefix (calls w0 @ [ValidateBudget code (total req)])
        (calls w0 @ [ValidateBudget code (total req), DetermineApprovers req])"
      by simp
    then have short: "prefix (calls w0 @ [ValidateBudget code (total req)]) (calls w6)"
      using long by (rule prefix_order.trans)
    have "prefix xs (calls w6 @ ext)" if "prefix xs (calls w6)" for xs ext
      using that by (rule prefix_prefix)
    with long short pa show ?thesis
      using run_with_approvers [OF assms True ne, of w0]
      by (cases res) simp_all
  qed
qed

text \<open>
  C6, as the code has it. The run does not validate the requisition and there is no
  \<open>FatalConfigurationError\<close>. A requisition that has the keys the run reads, whatever its
  budget code (the empty string included) and whatever its total, is not refused: the run returns a result, and
  it goes through the step pipeline, scheduling the budget check with the code and the
  total as they are and, when the budget is available, the chain resolution. When the
  budget is available and the total is not positive, the chain is empty, a purchase
  order is generated and the result is \<open>complete\<close> with \<open>auto_approved\<close>. A requisition
  dictionary without the key \<open>budget_code\<close> fails with a \<open>KeyError\<close> raised before any
  activity is scheduled.
\<close>

theorem run_does_not_validate_requisition:
  "(budget_code req = None \<longrightarrow>
      fst (run env req w0) = Inl (KeyError ''budget_code'') \<and>
      calls (snd (run env req w0)) = calls w0) \<and>
   (budget_code req = Some code \<longrightarrow>
      (\<exists>r. fst (run env req w0) = Inr r) \<and>
      prefix (calls w0 @ [ValidateBudget code (total req)]) (calls (snd (run env req w0))) \<and>
      (available (validate_budget env code (total req)) \<longrightarrow>
         prefix (calls w0 @ [ValidateBudget code (total req), DetermineApprovers req])
           (calls (snd (run env req w0))))) \<and>
   (budget_code req = Some code \<and> available (validate_budget env code (total req)) \<and>
    total req \<le> 0 \<longrightarrow>
      fst (run env req w0) =
        Inr [(''status'', PyStr ''complete''),
             (''po_number'', PyStr (generate_purchase_order (requisition_id req))),
             (''auto_approved'', PyBool True)] \<and>
      calls (snd (run env req w0)) =
        calls w0 @ [ValidateBudget code (total req), DetermineApprovers req,
                    GeneratePurchaseOrder (requisition_id req)])"
proof -
  have "determine_approvers req = []" if "total req \<le> 0"
    using that by (simp add: determine_approvers_cases)
  then show ?thesis
    using run_without_budget_code [of req env w0] run_auto_approved [of req code env w0]
      run_enters_pipeline [of req code env w0]
    by auto
qed

theorem run_does_not_validate_requisition_witness:
  "budget_code req_malformed = Some '''' \<and>
   available (validate_budget stub_env '''' (total req_malformed)) \<and>
   total req_malformed \<le> 0 \<and>
   fst (run stub_env req_malformed (init_workflow 0)) =
     Inr [(''status'', PyStr ''complete''), (''po_number'', PyStr ''PO-000000''),
          (''auto_approved'', PyBool True)] \<and>
   budget_code (req_1000\<lparr>budget_code := Some ''''\<rparr>) = Some '''' \<and>
   prefix [ValidateBudget '''' 1000, DetermineApprovers (req_1000\<lparr>budget_code := Some ''''\<rparr>)]
     (calls (snd (run stub_env (req_1000\<lparr>budget_code := Some ''''\<rparr>) (init_workflow 0)))) \<and>
   budget_code (req_malformed\<lparr>budget_code := None\<rparr>) = None \<and>
   fst (run stub_env (req_malformed\<lparr>budget_code := None\<rparr>) (init_workflow 0)) =
     Inl (KeyError ''budget_code'')"
  using run_does_not_validate_requisition [of req_malformed stub_env "init_workflow 0" "''''"]
    run_does_not_validate_requisition
      [of "req_1000\<lparr>budget_code := Some ''''\<rparr>" stub_env "init_workflow 0" "''''"]
    run_does_not_validate_requisition
      [of "req_malformed\<lparr>budget_code := None\<rparr>" stub_env "init_workflow 0" "''''"]
  by (simp add: req_malformed_def req_1000_def stub_env_def generate_purchase_order_def
      init_workflow_def)

theorem malformed_requisition_completes_counterexample:
  "budget_code req_malformed = Some '''' \<and> total req_malformed = 0 \<and>
   run stub_env req_malformed (init_workflow 0) =
     (Inr [(''status'', PyStr ''complete''), (''po_number'', PyStr ''PO-000000''),
           (''auto_approved'', PyBool True)],
      \<lparr>approved = False, rejected = False, rejection_reason = PyNone,
       current_step = ''generating_po'', now = 0, checks = 0,
       calls = [ValidateBudget '''' 0, DetermineApprovers req_malformed,
                GeneratePurchaseOrder ''REQ-000000''],
       deadlines = []\<rparr>)"
  by (simp add: run_def Let_def req_malformed_def stub_env_def init_workflow_def
      determine_approvers_cases execute_activity_def generate_purchase_order_def)

text \<open>
  C10. When the budget check passes and the approver chain is empty, the run schedules
  the budget check, the chain resolution and the purchase order and nothing else (no
  vendor transmission), and returns \<open>complete\<close> with the purchase order number and
  \<open>auto_approved\<close>, without a \<open>sent_to_vendor\<close> entry. With a chain that is not empty,
  every result \<open>complete\<close> has a \<open>sent_to_vendor\<close> entry and the run has scheduled the
  vendor transmission.
\<close>

theorem auto_approval_skips_vendor_transmission:
  assumes "budget_code req = Some code"
    and "available (validate_budget env code (total req))"
  shows "(determine_approvers req = [] \<longrightarrow>
            fst (run env req w0) =
              Inr [(''status'', PyStr ''complete''),
                   (''po_number'', PyStr (generate_purchase_order (requisition_id req))),
                   (''auto_approved'', PyBool True)] \<and>
            calls (snd (run env req w0)) =
              calls w0 @ [ValidateBudget code (total req), DetermineApprovers req,
                          GeneratePurchaseOrder (requisition_id req)] \<and>
            filter is_vendor_transmission
              (drop (length (calls w0)) (calls (snd (run env req w0)))) = []) \<and>
         (determine_approvers req \<noteq> [] \<longrightarrow>
            (\<forall>r. fst (run env req w0) = Inr r \<and>
                  map_of r ''status'' = Some (PyStr ''complete'') \<longrightarrow>
                  ''sent_to_vendor'' \<in> set (keys r) \<and> ''auto_approved'' \<notin> set (keys r) \<and>
                  last (calls (snd (run env req w0))) =
                    SendPoToVendor (generate_purchase_order (requisition_id req))
                      (case vendor_id req of None \<Rightarrow> '''' | Some v \<Rightarrow> v)))"
proof -
  have empty_chain: "fst (run env req w0) =
      Inr [(''status'', PyStr ''complete''),
           (''po_number'', PyStr (generate_purchase_order (requisition_id req))),
           (''auto_approved'', PyBool True)] \<and>
    calls (snd (run env req w0)) =
      calls w0 @ [ValidateBudget code (total req), DetermineApprovers req,
                  GeneratePurchaseOrder (requisition_id req)] \<and>
    filter is_vendor_transmission
      (drop (length (calls w0)) (calls (snd (run env req w0)))) = []"
    if e: "determine_approvers req = []"
    using run_auto_approved [OF assms e, of w0] by simp
  have chain: "''sent_to_vendor'' \<in> set (keys r) \<and> ''auto_approved'' \<notin> set (keys r) \<and>
      last (calls (snd (run env req w0))) =
        SendPoToVendor (generate_purchase_order (requisition_id req))
          (case vendor_id req of None \<Rightarrow> '''' | Some v \<Rightarrow> v)"
    if ne: "determine_approvers req \<noteq> []"
      and c: "fst (run env req w0) = Inr r \<and> map_of r ''status'' = Some (PyStr ''complete'')"
    for r
  proof -
    let ?w5 = "w0\<lparr>calls := calls w0 @ [ValidateBudget code (total req), DetermineApprovers req],
      current_step := ''awaiting_approvals''\<rparr>"
    obtain res w6 where
      pa: "process_approvers env req (determine_approvers req) ?w5 = (res, w6)"
      by (cases "process_approvers env req (determine_approvers req) ?w5")
    have "res = None"
    proof (cases res)
      case None then show ?thesis .
    next
      case (Some r')
      with pa c have "r' = r"
        using run_with_approvers [OF assms ne, of w0] by simp
      moreover have "map_of r' ''status'' = Some (PyStr ''rejected'') \<or>
           map_of r' ''status'' = Some (PyStr ''escalated_timeout'')"
        using process_approvers_result_status [of env req "determine_approvers req" ?w5 r']
          pa Some
        by simp
      ultimately show ?thesis using c by auto
    qed
    with pa c show ?thesis
      using run_with_approvers [OF assms ne, of w0] by (auto simp: keys_def)
  qed
  show ?thesis
    using empty_chain chain by blast
qed

section \<open>Requisition approval workflow: the run and its approvers, signals\<close>


lemma run_from_tier:
  assumes "budget_code req = Some code"
    and "available (validate_budget env code (total req))"
    and "determine_approvers req = pre @ a # rest"
    and "process_approvers env req pre
           (w0\<lparr>calls := calls w0 @ [ValidateBudget code (total req), DetermineApprovers req],
               current_step := ''awaiting_approvals''\<rparr>) = (None, w)"
    and "process_approvers env req (a # rest) w = (Some r, w')"
  shows "run env req w0 = (Inr r, w')"
proof -
  have ne: "determine_approvers req \<noteq> []"
    using assms(3) by simp
  have "process_approvers env req (determine_approvers req)
           (w0\<lparr>calls := calls w0 @ [ValidateBudget code (total req), DetermineApprovers req],
               current_step := ''awaiting_approvals''\<rparr>) = (Some r, w')"
    by (simp only: assms(3) process_approvers_append assms(4) assms(5) prod.case option.case)
  then show ?thesis
    by (simp add: run_with_approvers [OF assms(1) assms(2) ne])
qed

lemma await_decision_same_clock:
  assumes "now w' = now w" and "checks w' = checks w"
  shows "fst (await_decision env req a d w') = fst (await_decision env req a d w) \<and>
         now (snd (await_decision env req a d w')) = now (snd (await_decision env req a d w)) \<and>
         checks (snd (await_decision env req a d w')) =
           checks (snd (await_decision env req a d w))"
  using assms
proof (induction env req a d w arbitrary: w' rule: await_decision.induct)
  case (1 env req a deadline w)
  let ?st = "check_approval_status env (requisition_id req) (checks w)"
  let ?next = "\<lambda>v. sleep check_interval
      ((execute_activity (CheckApprovalStatus (requisition_id req)) v)
         \<lparr>checks := Suc (checks v)\<rparr>)"
  show ?case
  proof (cases "now w < deadline \<and> \<not> st_approved ?st \<and> \<not> st_rejected ?st")
    case True
    have "now (?next w') = now (?next w)" "checks (?next w') = checks (?next w)"
      using "1.prems" by (simp_all add: sleep_def execute_activity_def)
    then have "fst (await_decision env req a deadline (?next w')) =
           fst (await_decision env req a deadline (?next w)) \<and>
         now (snd (await_decision env req a deadline (?next w'))) =
           now (snd (await_decision env req a deadline (?next w))) \<and>
         checks (snd (await_decision env req a deadline (?next w'))) =
           checks (snd (await_decision env req a deadline (?next w)))"
      using "1.IH" [of ?st _ "?next w'"] True by simp
    then show ?thesis
      using True "1.prems"
      by (subst (1 2 3 4 5 6) await_decision.simps) (simp add: Let_def)
  next
    case False
    then show ?thesis
      using "1.prems"
      by (subst (1 2 3 4 5 6) await_decision.simps)
         (auto simp: Let_def execute_activity_def)
  qed
qed

text \<open>
  The attributes that the signal handler \<open>approval_received\<close> sets are not read by the
  polling loop: a signal delivered before the loop changes neither what the loop returns
  nor its clock.
\<close>

lemma await_decision_ignores_signal:
  "fst (await_decision env req a d (approval_received approver is_approved reason w)) =
   fst (await_decision env req a d w)"
  using await_decision_same_clock
    [of "approval_received approver is_approved reason w" w env req a d]
  by (simp add: approval_received_def)

section \<open>Requisition approval workflow: one approver of the chain\<close>


text \<open>
  In the two theorems that follow, \<open>w\<close> is the workflow at the moment approver \<open>a\<close> is
  reached: the budget check has passed, the chain is \<open>pre @ a # rest\<close>, and the approvers
  in \<open>pre\<close> have been processed without the run returning.
\<close>

text \<open>
  C4, as the code has it. When the status check that ends the wait for approver \<open>a\<close>
  comes before the deadline and reports a rejection and no approval (the approved flag is
  read first), the run returns the rejected result with the reason and the approver. That status check is the last activity the run schedules, the only
  notification sent from the moment \<open>a\<close> is reached is the one to \<open>a\<close> (none to the
  approvers in \<open>rest\<close>), and the workflow clock stands at the time of that status check.
\<close>

theorem rejection_ends_run:
  assumes "budget_code req = Some code"
    and "available (validate_budget env code (total req))"
    and "determine_approvers req = pre @ a # rest"
    and "process_approvers env req pre
           (w0\<lparr>calls := calls w0 @ [ValidateBudget code (total req), DetermineApprovers req],
               current_step := ''awaiting_approvals''\<rparr>) = (None, w)"
    and "check_interval * n < hours (sla_hours req)"
    and "\<forall>j<n. undecided (check_approval_status env (requisition_id req) (checks w + j))"
    and "st_rejected (check_approval_status env (requisition_id req) (checks w + n))"
    and "\<not> st_approved (check_approval_status env (requisition_id req) (checks w + n))"
  shows "fst (run env req w0) =
           Inr [(''status'', PyStr ''rejected''),
                (''reason'', reason_of
                   (check_approval_status env (requisition_id req) (checks w + n))),
                (''approver'', PyStr (approver_id a))] \<and>
         calls (snd (run env req w0)) =
           calls w @ SendApprovalNotification (make_request req a)
             # polls (requisition_id req) n @ [CheckApprovalStatus (requisition_id req)] \<and>
         filter is_notification (drop (length (calls w)) (calls (snd (run env req w0)))) =
           [SendApprovalNotification (make_request req a)] \<and>
         now (snd (run env req w0)) = now w + check_interval * n \<and>
         rejected (snd (run env req w0))"
proof -
  let ?st = "check_approval_status env (requisition_id req) (checks w + n)"
  let ?w' = "w\<lparr>now := now w + check_interval * n, checks := Suc (checks w + n),
        calls := calls w @ SendApprovalNotification (make_request req a)
                   # polls (requisition_id req) n
                   @ [CheckApprovalStatus (requisition_id req)],
        deadlines := deadlines w @ [(level a, now w + hours (sla_hours req))],
        rejected := True, rejection_reason := reason_of ?st\<rparr>"
  have "process_approvers env req (a # rest) w = (Some (rejected_result (reason_of ?st) a), ?w')"
    using process_approver_rejected_at [OF assms(6) assms(5) assms(8) assms(7), of a]
    by simp
  then have "run env req w0 = (Inr (rejected_result (reason_of ?st) a), ?w')"
    by (rule run_from_tier [OF assms(1) assms(2) assms(3) assms(4)])
  then show ?thesis
    by (simp add: rejected_result_def)
qed

text \<open>
  C3, as the code has it. When no status check before the deadline of approver \<open>a\<close> reports
  a decision, the workflow schedules one escalation for \<open>a\<close>, sleeps four hours and checks
  the status once more. If that last status is not approved, the run returns the result
  \<open>escalated_timeout\<close>, which holds a status and a fixed details text and nothing else,
  and that status check is the last activity the run schedules (nothing is scheduled for
  the approvers in \<open>rest\<close>); if it is approved, the run goes on with \<open>rest\<close>.
\<close>

theorem escalation_after_deadline:
  assumes "budget_code req = Some code"
    and "available (validate_budget env code (total req))"
    and "determine_approvers req = pre @ a # rest"
    and "process_approvers env req pre
           (w0\<lparr>calls := calls w0 @ [ValidateBudget code (total req), DetermineApprovers req],
               current_step := ''awaiting_approvals''\<rparr>) = (None, w)"
    and "\<forall>j<4 * sla_hours req.
      undecided (check_approval_status env (requisition_id req) (checks w + j))"
  shows "calls (snd (process_approver env req a w)) =
           calls w @ SendApprovalNotification (make_request req a)
             # polls (requisition_id req) (4 * sla_hours req)
             @ [EscalateApproval (make_request req a), Sleep (hours 4),
                CheckApprovalStatus (requisition_id req)] \<and>
         length (filter is_escalation
           (drop (length (calls w)) (calls (snd (process_approver env req a w))))) = 1 \<and>
         now (snd (process_approver env req a w)) = now w + hours (sla_hours req) + hours 4 \<and>
         (\<not> st_approved (check_approval_status env (requisition_id req)
                           (checks w + 4 * sla_hours req)) \<longrightarrow>
            run env req w0 =
              (Inr [(''status'', PyStr ''escalated_timeout''),
                    (''details'', PyStr ''Approval not received after escalation'')],
               snd (process_approver env req a w))) \<and>
         (st_approved (check_approval_status env (requisition_id req)
                         (checks w + 4 * sla_hours req)) \<longrightarrow>
            process_approvers env req (a # rest) w =
              process_approvers env req rest (snd (process_approver env req a w)))"
proof -
  note tier = process_approver_expired [OF assms(5), of a]
  have timeout: "run env req w0 =
      (Inr escalated_timeout_result, snd (process_approver env req a w))"
    if "\<not> st_approved (check_approval_status env (requisition_id req)
                           (checks w + 4 * sla_hours req))"
  proof -
    have "process_approvers env req (a # rest) w =
        (Some escalated_timeout_result, snd (process_approver env req a w))"
      using tier that by simp
    then show ?thesis
      by (rule run_from_tier [OF assms(1) assms(2) assms(3) assms(4)])
  qed
  show ?thesis
    using tier timeout by (simp add: escalated_timeout_result_def)
qed

text \<open>
  C9, as the code has it. When the status check that ends the wait for approver \<open>a\<close> has
  both the approved and the rejected flag set, the approved flag is read first: the loop
  is left as for an approval, the run does not return, the \<open>rejected\<close> attribute is not
  set, and the run goes on with the approvers after \<open>a\<close>.
\<close>

theorem approved_flag_read_first:
  assumes "check_interval * n < hours (sla_hours req)"
    and "\<forall>j<n. undecided (check_approval_status env (requisition_id req) (checks w + j))"
    and "st_approved (check_approval_status env (requisition_id req) (checks w + n))"
    and "st_rejected (check_approval_status env (requisition_id req) (checks w + n))"
  shows "fst (process_approver env req a w) = None \<and>
         rejected (snd (process_approver env req a w)) = rejected w \<and>
         calls (snd (process_approver env req a w)) =
           calls w @ SendApprovalNotification (make_request req a)
             # polls (requisition_id req) n @ [CheckApprovalStatus (requisition_id req)] \<and>
         process_approvers env req (a # rest) w =
           process_approvers env req rest (snd (process_approver env req a w))"
  using process_approver_approved_at [OF assms(2) assms(1) assms(3), of a]
  by simp

text \<open>
  C5, as the code has it. The wait for an approver starts at the workflow time \<open>now w\<close>
  at which the approver is reached, and its deadline is that time plus 48 hours when the
  urgency is \<open>standard\<close> and plus 8 hours when it is \<open>rush\<close> or \<open>emergency\<close>.
  The deadline is the one the wait uses: the status is checked every 15 minutes
  from the start of the wait; an approval at a check made before the deadline ends the
  wait at the time of that check, with no escalation; when the first approval would come
  at a check at or after the deadline, the wait has made its checks up to the deadline
  only and the escalation follows them.
\<close>

theorem deadline_from_wait_start:
  assumes "\<forall>j<n. undecided (check_approval_status env (requisition_id req) (checks w + j))"
    and "st_approved (check_approval_status env (requisition_id req) (checks w + n))"
  shows "(check_interval * n < 60 * (if urgency req = ''standard'' then 48 else 8) \<longrightarrow>
            process_approver env req a w =
              (None, w\<lparr>now := now w + check_interval * n, checks := Suc (checks w + n),
                 calls := calls w @ SendApprovalNotification (make_request req a)
                            # polls (requisition_id req) n
                            @ [CheckApprovalStatus (requisition_id req)],
                 deadlines := deadlines w @
                   [(level a, now w + 60 * (if urgency req = ''standard'' then 48 else 8))]\<rparr>)) \<and>
         (60 * (if urgency req = ''standard'' then 48 else 8) \<le> check_interval * n \<longrightarrow>
            calls (snd (process_approver env req a w)) =
              calls w @ SendApprovalNotification (make_request req a)
                # polls (requisition_id req) (4 * (if urgency req = ''standard'' then 48 else 8))
                @ [EscalateApproval (make_request req a), Sleep (hours 4),
                   CheckApprovalStatus (requisition_id req)] \<and>
            now (snd (process_approver env req a w)) =
              now w + 60 * (if urgency req = ''standard'' then 48 else 8) + hours 4) \<and>
         deadlines (snd (process_approver env req a w)) =
           deadlines w @
             [(level a, now w + 60 * (if urgency req = ''standard'' then 48 else 8))]"
proof -
  have sla: "hours (sla_hours req) = 60 * (if urgency req = ''standard'' then 48 else 8)"
    "4 * sla_hours req = 4 * (if urgency req = ''standard'' then 48 else 8)"
    by (simp_all add: hours_def sla_hours_def)
  have before: "process_approver env req a w =
      (None, w\<lparr>now := now w + check_interval * n, checks := Suc (checks w + n),
         calls := calls w @ SendApprovalNotification (make_request req a)
                    # polls (requisition_id req) n
                    @ [CheckApprovalStatus (requisition_id req)],
         deadlines := deadlines w @ [(level a, now w + hours (sla_hours req))]\<rparr>)"
    if "check_interval * n < hours (sla_hours req)"
    using process_approver_approved_at [OF assms(1) that assms(2), of a] .
  have after: "process_approver env req a w =
     ((if st_approved (check_approval_status env (requisition_id req)
                        (checks w + 4 * sla_hours req))
       then None else Some escalated_timeout_result),
      w\<lparr>now := now w + hours (sla_hours req) + hours 4,
        checks := Suc (checks w + 4 * sla_hours req),
        calls := calls w @ SendApprovalNotification (make_request req a)
                   # polls (requisition_id req) (4 * sla_hours req)
                   @ [EscalateApproval (make_request req a), Sleep (hours 4),
                      CheckApprovalStatus (requisition_id req)],
        deadlines := deadlines w @ [(level a, now w + hours (sla_hours req))]\<rparr>)"
    if late: "hours (sla_hours req) \<le> check_interval * n"
  proof -
    have "4 * sla_hours req \<le> n"
      using late by (simp add: hours_def check_interval_def)
    then have "\<forall>j<4 * sla_hours req.
        undecided (check_approval_status env (requisition_id req) (checks w + j))"
      using assms(1) by auto
    then show ?thesis
      by (rule process_approver_expired)
  qed
  have log: "deadlines (snd (process_approver env req a w)) =
      deadlines w @ [(level a, now w + hours (sla_hours req))]"
  proof (cases "check_interval * n < hours (sla_hours req)")
    case True
    then show ?thesis using before by simp
  next
    case False
    then show ?thesis using after by simp
  qed
  show ?thesis
    using before after log unfolding sla by simp
qed

section \<open>Requisition approval workflow: example runs\<close>

lemma chain_req_1000: "determine_approvers req_1000 = [manager]"
  by (simp add: determine_approvers_cases req_1000_def)

lemma chain_req_6000: "determine_approvers req_6000 = [manager, director]"
  by (simp add: determine_approvers_cases req_6000_def)

lemma run_stub_req_1000:
  "run stub_env req_1000 (init_workflow 0) =
     (Inr [(''status'', PyStr ''escalated_timeout''),
           (''details'', PyStr ''Approval not received after escalation'')],
      \<lparr>approved = False, rejected = False, rejection_reason = PyNone,
       current_step = ''awaiting_approvals'', now = 720, checks = 33,
       calls = [ValidateBudget ''CHEM-2024-001'' 1000, DetermineApprovers req_1000,
                SendApprovalNotification (make_request req_1000 manager)]
               @ polls ''REQ-001000'' 32
               @ [EscalateApproval (make_request req_1000 manager), Sleep 240,
                  CheckApprovalStatus ''REQ-001000''],
       deadlines = [(1, 480)]\<rparr>)"
proof -
  let ?w5 = "(init_workflow 0)\<lparr>calls := calls (init_workflow 0) @
      [ValidateBudget ''CHEM-2024-001'' (total req_1000), DetermineApprovers req_1000],
      current_step := ''awaiting_approvals''\<rparr>"
  have tier: "process_approver stub_env req_1000 manager ?w5 =
     (Some escalated_timeout_result,
      ?w5\<lparr>now := now ?w5 + hours (sla_hours req_1000) + hours 4,
        checks := Suc (checks ?w5 + 4 * sla_hours req_1000),
        calls := calls ?w5 @ SendApprovalNotification (make_request req_1000 manager)
                   # polls (requisition_id req_1000) (4 * sla_hours req_1000)
                   @ [EscalateApproval (make_request req_1000 manager), Sleep (hours 4),
                      CheckApprovalStatus (requisition_id req_1000)],
        deadlines := deadlines ?w5 @ [(level manager, now ?w5 + hours (sla_hours req_1000))]\<rparr>)"
    using process_approver_expired [of req_1000 stub_env ?w5 manager]
    by (simp add: stub_env_def undecided_def)
  have "run stub_env req_1000 (init_workflow 0) =
     (case process_approvers stub_env req_1000 [manager] ?w5 of
        (Some r, w6) \<Rightarrow> (Inr r, w6)
      | (None, w6) \<Rightarrow>
          (Inr [(''status'', PyStr ''complete''),
                (''po_number'', PyStr (generate_purchase_order (requisition_id req_1000))),
                (''sent_to_vendor'', PyBool (send_po_to_vendor stub_env
                    (generate_purchase_order (requisition_id req_1000))
                    (case vendor_id req_1000 of None \<Rightarrow> '''' | Some v \<Rightarrow> v)))],
           w6\<lparr>approved := True, current_step := ''sending_to_vendor'',
              calls := calls w6 @ [GeneratePurchaseOrder (requisition_id req_1000),
                 SendPoToVendor (generate_purchase_order (requisition_id req_1000))
                   (case vendor_id req_1000 of None \<Rightarrow> '''' | Some v \<Rightarrow> v)]\<rparr>))"
    using run_with_approvers [of req_1000 "''CHEM-2024-001''" stub_env "init_workflow 0"]
    by (simp add: chain_req_1000) (simp add: req_1000_def stub_env_def)
  then show ?thesis
    by (simp add: tier)
       (simp add: escalated_timeout_result_def init_workflow_def req_1000_def hours_def
          sla_hours_def manager_def)
qed

lemma run_both_flags_req_1000:
  "run both_flags_env req_1000 (init_workflow 0) =
     (Inr [(''status'', PyStr ''complete''), (''po_number'', PyStr ''PO-001000''),
           (''sent_to_vendor'', PyBool True)],
      \<lparr>approved = True, rejected = False, rejection_reason = PyNone,
       current_step = ''sending_to_vendor'', now = 0, checks = 1,
       calls = [ValidateBudget ''CHEM-2024-001'' 1000, DetermineApprovers req_1000,
                SendApprovalNotification (make_request req_1000 manager),
                CheckApprovalStatus ''REQ-001000'',
                GeneratePurchaseOrder ''REQ-001000'',
                SendPoToVendor ''PO-001000'' ''vendor_001''],
       deadlines = [(1, 480)]\<rparr>)"
proof -
  let ?w5 = "(init_workflow 0)\<lparr>calls := calls (init_workflow 0) @
      [ValidateBudget ''CHEM-2024-001'' (total req_1000), DetermineApprovers req_1000],
      current_step := ''awaiting_approvals''\<rparr>"
  have tier: "process_approver both_flags_env req_1000 manager ?w5 =
     (None, ?w5\<lparr>now := now ?w5 + check_interval * 0, checks := Suc (checks ?w5 + 0),
              calls := calls ?w5 @ SendApprovalNotification (make_request req_1000 manager)
                         # polls (requisition_id req_1000) 0
                         @ [CheckApprovalStatus (requisition_id req_1000)],
              deadlines := deadlines ?w5
                 @ [(level manager, now ?w5 + hours (sla_hours req_1000))]\<rparr>)"
    by (rule process_approver_approved_at)
       (simp_all add: both_flags_env_def hours_def sla_hours_def req_1000_def)
  have "run both_flags_env req_1000 (init_workflow 0) =
     (case process_approvers both_flags_env req_1000 [manager] ?w5 of
        (Some r, w6) \<Rightarrow> (Inr r, w6)
      | (None, w6) \<Rightarrow>
          (Inr [(''status'', PyStr ''complete''),
                (''po_number'', PyStr (generate_purchase_order (requisition_id req_1000))),
                (''sent_to_vendor'', PyBool (send_po_to_vendor both_flags_env
                    (generate_purchase_order (requisition_id req_1000))
                    (case vendor_id req_1000 of None \<Rightarrow> '''' | Some v \<Rightarrow> v)))],
           w6\<lparr>approved := True, current_step := ''sending_to_vendor'',
              calls := calls w6 @ [GeneratePurchaseOrder (requisition_id req_1000),
                 SendPoToVendor (generate_purchase_order (requisition_id req_1000))
                   (case vendor_id req_1000 of None \<Rightarrow> '''' | Some v \<Rightarrow> v)]\<rparr>))"
    using run_with_approvers [of req_1000 "''CHEM-2024-001''" both_flags_env "init_workflow 0"]
    by (simp add: chain_req_1000) (simp add: req_1000_def both_flags_env_def stub_env_def)
  then show ?thesis
    by (simp add: tier)
       (simp add: init_workflow_def req_1000_def hours_def sla_hours_def manager_def
          both_flags_env_def stub_env_def generate_purchase_order_def polls_def)
qed

lemma polls_one: "polls rid (Suc 0) = [CheckApprovalStatus rid, Sleep check_interval]"
  by (simp add: polls_def)

lemma polls_none: "polls rid 0 = []"
  by (simp add: polls_def)

lemma run_slow_director_req_6000:
  "run slow_director_env req_6000 (init_workflow 0) =
     (Inr [(''status'', PyStr ''complete''), (''po_number'', PyStr ''PO-006000''),
           (''sent_to_vendor'', PyBool True)],
      \<lparr>approved = True, rejected = False, rejection_reason = PyNone,
       current_step = ''sending_to_vendor'', now = 480, checks = 34,
       calls = [ValidateBudget ''CHEM-2024-001'' 6000, DetermineApprovers req_6000,
                SendApprovalNotification (make_request req_6000 manager),
                CheckApprovalStatus ''REQ-006000'', Sleep 15,
                CheckApprovalStatus ''REQ-006000'',
                SendApprovalNotification (make_request req_6000 director)]
               @ polls ''REQ-006000'' 31
               @ [CheckApprovalStatus ''REQ-006000'',
                  GeneratePurchaseOrder ''REQ-006000'',
                  SendPoToVendor ''PO-006000'' ''''],
       deadlines = [(1, 480), (2, 495)]\<rparr>)"
proof -
  let ?w5 = "(init_workflow 0)\<lparr>calls := calls (init_workflow 0) @
      [ValidateBudget ''CHEM-2024-001'' (total req_6000), DetermineApprovers req_6000],
      current_step := ''awaiting_approvals''\<rparr>"
  let ?w6 = "?w5\<lparr>now := now ?w5 + check_interval * 1, checks := Suc (checks ?w5 + 1),
              calls := calls ?w5 @ SendApprovalNotification (make_request req_6000 manager)
                         # polls (requisition_id req_6000) 1
                         @ [CheckApprovalStatus (requisition_id req_6000)],
              deadlines := deadlines ?w5
                 @ [(level manager, now ?w5 + hours (sla_hours req_6000))]\<rparr>"
  have tier1: "process_approver slow_director_env req_6000 manager ?w5 = (None, ?w6)"
    by (rule process_approver_approved_at)
       (simp_all add: slow_director_env_def hours_def sla_hours_def req_6000_def
          check_interval_def undecided_def init_workflow_def)
  let ?w7 = "?w6\<lparr>now := now ?w6 + check_interval * 31, checks := Suc (checks ?w6 + 31),
              calls := calls ?w6 @ SendApprovalNotification (make_request req_6000 director)
                         # polls (requisition_id req_6000) 31
                         @ [CheckApprovalStatus (requisition_id req_6000)],
              deadlines := deadlines ?w6
                 @ [(level director, now ?w6 + hours (sla_hours req_6000))]\<rparr>"
  have tier2: "process_approver slow_director_env req_6000 director ?w6 = (None, ?w7)"
    by (rule process_approver_approved_at)
       (simp_all add: slow_director_env_def hours_def sla_hours_def req_6000_def
          check_interval_def undecided_def init_workflow_def)
  have tiers: "process_approvers slow_director_env req_6000 [manager, director] ?w5 =
      (None, ?w7)"
    by (simp only: process_approvers.simps tier1 tier2 prod.case option.case)
  have "run slow_director_env req_6000 (init_workflow 0) =
     (case process_approvers slow_director_env req_6000 [manager, director] ?w5 of
        (Some r, w6) \<Rightarrow> (Inr r, w6)
      | (None, w6) \<Rightarrow>
          (Inr [(''status'', PyStr ''complete''),
                (''po_number'', PyStr (generate_purchase_order (requisition_id req_6000))),
                (''sent_to_vendor'', PyBool (send_po_to_vendor slow_director_env
                    (generate_purchase_order (requisition_id req_6000))
                    (case vendor_id req_6000 of None \<Rightarrow> '''' | Some v \<Rightarrow> v)))],
           w6\<lparr>approved := True, current_step := ''sending_to_vendor'',
              calls := calls w6 @ [GeneratePurchaseOrder (requisition_id req_6000),
                 SendPoToVendor (generate_purchase_order (requisition_id req_6000))
                   (case vendor_id req_6000 of None \<Rightarrow> '''' | Some v \<Rightarrow> v)]\<rparr>))"
    using run_with_approvers
      [of req_6000 "''CHEM-2024-001''" slow_director_env "init_workflow 0"]
    by (simp add: chain_req_6000) (simp add: req_6000_def slow_director_env_def stub_env_def)
  then show ?thesis
    by (simp only: tiers prod.case option.case)
       (simp add: init_workflow_def req_6000_def hours_def sla_hours_def manager_def
          director_def slow_director_env_def stub_env_def generate_purchase_order_def
          polls_one check_interval_def)
qed

lemma run_both_flags_req_6000:
  "run both_flags_env req_6000 (init_workflow 0) =
     (Inr [(''status'', PyStr ''complete''), (''po_number'', PyStr ''PO-006000''),
           (''sent_to_vendor'', PyBool True)],
      \<lparr>approved = True, rejected = False, rejection_reason = PyNone,
       current_step = ''sending_to_vendor'', now = 0, checks = 2,
       calls = [ValidateBudget ''CHEM-2024-001'' 6000, DetermineApprovers req_6000,
                SendApprovalNotification (make_request req_6000 manager),
                CheckApprovalStatus ''REQ-006000'',
                SendApprovalNotification (make_request req_6000 director),
                CheckApprovalStatus ''REQ-006000'',
                GeneratePurchaseOrder ''REQ-006000'',
                SendPoToVendor ''PO-006000'' ''''],
       deadlines = [(1, 480), (2, 480)]\<rparr>)"
proof -
  let ?w5 = "(init_workflow 0)\<lparr>calls := calls (init_workflow 0) @
      [ValidateBudget ''CHEM-2024-001'' (total req_6000), DetermineApprovers req_6000],
      current_step := ''awaiting_approvals''\<rparr>"
  let ?w6 = "?w5\<lparr>now := now ?w5 + check_interval * 0, checks := Suc (checks ?w5 + 0),
              calls := calls ?w5 @ SendApprovalNotification (make_request req_6000 manager)
                         # polls (requisition_id req_6000) 0
                         @ [CheckApprovalStatus (requisition_id req_6000)],
              deadlines := deadlines ?w5
                 @ [(level manager, now ?w5 + hours (sla_hours req_6000))]\<rparr>"
  have tier1: "process_approver both_flags_env req_6000 manager ?w5 = (None, ?w6)"
    by (rule process_approver_approved_at)
       (simp_all add: both_flags_env_def hours_def sla_hours_def req_6000_def)
  let ?w7 = "?w6\<lparr>now := now ?w6 + check_interval * 0, checks := Suc (checks ?w6 + 0),
              calls := calls ?w6 @ SendApprovalNotification (make_request req_6000 director)
                         # polls (requisition_id req_6000) 0
                         @ [CheckApprovalStatus (requisition_id req_6000)],
              deadlines := deadlines ?w6
                 @ [(level director, now ?w6 + hours (sla_hours req_6000))]\<rparr>"
  have tier2: "process_approver both_flags_env req_6000 director ?w6 = (None, ?w7)"
    by (rule process_approver_approved_at)
       (simp_all add: both_flags_env_def hours_def sla_hours_def req_6000_def)
  have tiers: "process_approvers both_flags_env req_6000 [manager, director] ?w5 =
      (None, ?w7)"
    by (simp only: process_approvers.simps tier1 tier2 prod.case option.case)
  have "run both_flags_env req_6000 (init_workflow 0) =
     (case process_approvers both_flags_env req_6000 [manager, director] ?w5 of
        (Some r, w6) \<Rightarrow> (Inr r, w6)
      | (None, w6) \<Rightarrow>
          (Inr [(''status'', PyStr ''complete''),
                (''po_number'', PyStr (generate_purchase_order (requisition_id req_6000))),
                (''sent_to_vendor'', PyBool (send_po_to_vendor both_flags_env
                    (generate_purchase_order (requisition_id req_6000))
                    (case vendor_id req_6000 of None \<Rightarrow> '''' | Some v \<Rightarrow> v)))],
           w6\<lparr>approved := True, current_step := ''sending_to_vendor'',
              calls := calls w6 @ [GeneratePurchaseOrder (requisition_id req_6000),
                 SendPoToVendor (generate_purchase_order (requisition_id req_6000))
                   (case vendor_id req_6000 of None \<Rightarrow> '''' | Some v \<Rightarrow> v)]\<rparr>))"
    using run_with_approvers
      [of req_6000 "''CHEM-2024-001''" both_flags_env "init_workflow 0"]
    by (simp add: chain_req_6000) (simp add: req_6000_def both_flags_env_def stub_env_def)
  then show ?thesis
    by (simp only: tiers prod.case option.case)
       (simp add: init_workflow_def req_6000_def hours_def sla_hours_def manager_def
          director_def both_flags_env_def stub_env_def generate_purchase_order_def
          polls_none check_interval_def)
qed

section \<open>Requisition approval workflow: the properties at example runs\<close>

theorem rejection_ends_run_witness:
  "budget_code req_6000 = Some ''CHEM-2024-001'' \<and>
   available (validate_budget rejecting_env ''CHEM-2024-001'' (total req_6000)) \<and>
   determine_approvers req_6000 = [] @ manager # [director] \<and>
   check_interval * 1 < hours (sla_hours req_6000) \<and>
   undecided (check_approval_status rejecting_env (requisition_id req_6000) 0) \<and>
   st_rejected (check_approval_status rejecting_env (requisition_id req_6000) 1) \<and>
   \<not> st_approved (check_approval_status rejecting_env (requisition_id req_6000) 1) \<and>
   fst (run rejecting_env req_6000 (init_workflow 0)) =
     Inr [(''status'', PyStr ''rejected''),
          (''reason'', PyStr ''Over budget for the quarter''),
          (''approver'', PyStr ''manager_001'')] \<and>
   calls (snd (run rejecting_env req_6000 (init_workflow 0))) =
     [ValidateBudget ''CHEM-2024-001'' 6000, DetermineApprovers req_6000,
      SendApprovalNotification (make_request req_6000 manager),
      CheckApprovalStatus ''REQ-006000'', Sleep 15, CheckApprovalStatus ''REQ-006000'']"
  using rejection_ends_run [of req_6000 "''CHEM-2024-001''" rejecting_env "[]" manager
      "[director]" "init_workflow 0"
      "(init_workflow 0)\<lparr>calls := calls (init_workflow 0) @
          [ValidateBudget ''CHEM-2024-001'' (total req_6000), DetermineApprovers req_6000],
        current_step := ''awaiting_approvals''\<rparr>" 1]
  by (simp add: chain_req_6000)
     (simp add: rejecting_env_def stub_env_def req_6000_def check_interval_def hours_def
        sla_hours_def undecided_def reason_of_def manager_def init_workflow_def polls_def)

theorem escalation_after_deadline_witness:
  "budget_code req_1000 = Some ''CHEM-2024-001'' \<and>
   available (validate_budget stub_env ''CHEM-2024-001'' (total req_1000)) \<and>
   determine_approvers req_1000 = [] @ manager # [] \<and>
   4 * sla_hours req_1000 = 32 \<and>
   undecided (check_approval_status stub_env (requisition_id req_1000) 31) \<and>
   \<not> st_approved (check_approval_status stub_env (requisition_id req_1000) 32) \<and>
   fst (run stub_env req_1000 (init_workflow 0)) =
     Inr [(''status'', PyStr ''escalated_timeout''),
          (''details'', PyStr ''Approval not received after escalation'')] \<and>
   now (snd (run stub_env req_1000 (init_workflow 0))) = 720 \<and>
   length (filter is_escalation (calls (snd (run stub_env req_1000 (init_workflow 0))))) = 1"
  using escalation_after_deadline [of req_1000 "''CHEM-2024-001''" stub_env "[]" manager
      "[]" "init_workflow 0"
      "(init_workflow 0)\<lparr>calls := calls (init_workflow 0) @
          [ValidateBudget ''CHEM-2024-001'' (total req_1000), DetermineApprovers req_1000],
        current_step := ''awaiting_approvals''\<rparr>"]
  by (simp add: chain_req_1000)
     (simp add: stub_env_def req_1000_def hours_def sla_hours_def undecided_def
        init_workflow_def)

theorem approved_flag_read_first_witness:
  "check_interval * 0 < hours (sla_hours req_1000) \<and>
   st_approved (check_approval_status both_flags_env (requisition_id req_1000) 0) \<and>
   st_rejected (check_approval_status both_flags_env (requisition_id req_1000) 0) \<and>
   fst (process_approvers both_flags_env req_1000 [manager] (init_workflow 0)) = None \<and>
   \<not> rejected (snd (process_approver both_flags_env req_1000 manager (init_workflow 0)))"
  using approved_flag_read_first [of 0 req_1000 both_flags_env "init_workflow 0" manager "[]"]
  by (simp add: both_flags_env_def req_1000_def hours_def sla_hours_def init_workflow_def)

theorem auto_approval_skips_vendor_transmission_witness:
  "budget_code req_300 = Some ''CHEM-2024-001'' \<and>
   available (validate_budget stub_env ''CHEM-2024-001'' (total req_300)) \<and>
   determine_approvers req_300 = [] \<and>
   run stub_env req_300 (init_workflow 0) =
     (Inr [(''status'', PyStr ''complete''), (''po_number'', PyStr ''PO-000300''),
           (''auto_approved'', PyBool True)],
      \<lparr>approved = False, rejected = False, rejection_reason = PyNone,
       current_step = ''generating_po'', now = 0, checks = 0,
       calls = [ValidateBudget ''CHEM-2024-001'' 300, DetermineApprovers req_300,
                GeneratePurchaseOrder ''REQ-000300''],
       deadlines = []\<rparr>) \<and>
   determine_approvers req_1000 \<noteq> [] \<and>
   ''sent_to_vendor'' \<in> set (keys (projr (fst (run both_flags_env req_1000 (init_workflow 0)))))"
proof -
  have small: "determine_approvers req_300 = []"
    by (simp add: determine_approvers_cases req_300_def)
  have "run stub_env req_300 (init_workflow 0) =
     (Inr [(''status'', PyStr ''complete''), (''po_number'', PyStr ''PO-000300''),
           (''auto_approved'', PyBool True)],
      \<lparr>approved = False, rejected = False, rejection_reason = PyNone,
       current_step = ''generating_po'', now = 0, checks = 0,
       calls = [ValidateBudget ''CHEM-2024-001'' 300, DetermineApprovers req_300,
                GeneratePurchaseOrder ''REQ-000300''],
       deadlines = []\<rparr>)"
    using run_auto_approved [of req_300 "''CHEM-2024-001''" stub_env "init_workflow 0"] small
    by (simp add: req_300_def stub_env_def init_workflow_def generate_purchase_order_def)
  moreover have "''sent_to_vendor'' \<in>
      set (keys (projr (fst (run both_flags_env req_1000 (init_workflow 0)))))"
    using auto_approval_skips_vendor_transmission
      [of req_1000 "''CHEM-2024-001''" both_flags_env "init_workflow 0"]
    by (simp add: run_both_flags_req_1000 chain_req_1000)
       (simp add: req_1000_def both_flags_env_def stub_env_def generate_purchase_order_def
          keys_def)
  moreover have "filter is_vendor_transmission
      (calls (snd (run stub_env req_300 (init_workflow 0)))) = []"
    using auto_approval_skips_vendor_transmission
      [of req_300 "''CHEM-2024-001''" stub_env "init_workflow 0"] small
    by (simp add: req_300_def stub_env_def init_workflow_def)
  ultimately show ?thesis
    by (simp add: small chain_req_1000) (simp add: req_300_def stub_env_def)
qed

theorem escalated_timeout_carries_no_tier_counterexample:
  "fst (run stub_env req_1000 (init_workflow 0)) =
     Inr [(''status'', PyStr ''escalated_timeout''),
          (''details'', PyStr ''Approval not received after escalation'')] \<and>
   keys (projr (fst (run stub_env req_1000 (init_workflow 0)))) = [''status'', ''details''] \<and>
   map_of (projr (fst (run stub_env req_1000 (init_workflow 0)))) ''approver'' = None \<and>
   map_of (projr (fst (run stub_env req_1000 (init_workflow 0)))) ''level'' = None"
  by (simp add: run_stub_req_1000 keys_def)

theorem deadline_from_wait_start_witness:
  "undecided (check_approval_status late_approval_env (requisition_id req_6000) 0) \<and>
   st_approved (check_approval_status late_approval_env (requisition_id req_6000) 1) \<and>
   check_interval * 1 < 60 * (if urgency req_6000 = ''standard'' then 48 else 8) \<and>
   fst (process_approver late_approval_env req_6000 manager (init_workflow 0)) = None \<and>
   now (snd (process_approver late_approval_env req_6000 manager (init_workflow 0))) = 15 \<and>
   undecided (check_approval_status overdue_approval_env (requisition_id req_6000) 31) \<and>
   st_approved (check_approval_status overdue_approval_env (requisition_id req_6000) 32) \<and>
   60 * (if urgency req_6000 = ''standard'' then 48 else 8) \<le> check_interval * 32 \<and>
   calls (snd (process_approver overdue_approval_env req_6000 manager (init_workflow 0))) =
     SendApprovalNotification (make_request req_6000 manager) # polls ''REQ-006000'' 32
       @ [EscalateApproval (make_request req_6000 manager), Sleep 240,
          CheckApprovalStatus ''REQ-006000''] \<and>
   now (snd (process_approver overdue_approval_env req_6000 manager (init_workflow 0))) = 720"
  using deadline_from_wait_start [of 1 late_approval_env req_6000 "init_workflow 0" manager]
    deadline_from_wait_start [of 32 overdue_approval_env req_6000 "init_workflow 0" manager]
  by (simp add: late_approval_env_def overdue_approval_env_def stub_env_def req_6000_def
      check_interval_def hours_def undecided_def init_workflow_def)

theorem second_deadline_not_from_run_start_counterexample:
  "now (init_workflow 0) + hours (sla_hours req_6000) = 480 \<and>
   run slow_director_env req_6000 (init_workflow 0) =
     (Inr [(''status'', PyStr ''complete''), (''po_number'', PyStr ''PO-006000''),
           (''sent_to_vendor'', PyBool True)],
      \<lparr>approved = True, rejected = False, rejection_reason = PyNone,
       current_step = ''sending_to_vendor'', now = 480, checks = 34,
       calls = [ValidateBudget ''CHEM-2024-001'' 6000, DetermineApprovers req_6000,
                SendApprovalNotification (make_request req_6000 manager),
                CheckApprovalStatus ''REQ-006000'', Sleep 15,
                CheckApprovalStatus ''REQ-006000'',
                SendApprovalNotification (make_request req_6000 director)]
               @ polls ''REQ-006000'' 31
               @ [CheckApprovalStatus ''REQ-006000'',
                  GeneratePurchaseOrder ''REQ-006000'',
                  SendPoToVendor ''PO-006000'' ''''],
       deadlines = [(1, 480), (2, 495)]\<rparr>) \<and>
   filter is_escalation (calls (snd (run slow_director_env req_6000 (init_workflow 0)))) = [] \<and>
   snd (last (deadlines (snd (run slow_director_env req_6000 (init_workflow 0)))))
     \<noteq> now (init_workflow 0) + hours (sla_hours req_6000)"
  by (simp add: run_slow_director_req_6000)
     (simp add: init_workflow_def hours_def sla_hours_def req_6000_def)

theorem rejected_flag_beside_approved_flag_counterexample:
  "st_rejected (check_approval_status both_flags_env (requisition_id req_6000) 0) \<and>
   now (init_workflow 0) < now (init_workflow 0) + hours (sla_hours req_6000) \<and>
   run both_flags_env req_6000 (init_workflow 0) =
     (Inr [(''status'', PyStr ''complete''), (''po_number'', PyStr ''PO-006000''),
           (''sent_to_vendor'', PyBool True)],
      \<lparr>approved = True, rejected = False, rejection_reason = PyNone,
       current_step = ''sending_to_vendor'', now = 0, checks = 2,
       calls = [ValidateBudget ''CHEM-2024-001'' 6000, DetermineApprovers req_6000,
                SendApprovalNotification (make_request req_6000 manager),
                CheckApprovalStatus ''REQ-006000'',
                SendApprovalNotification (make_request req_6000 director),
                CheckApprovalStatus ''REQ-006000'',
                GeneratePurchaseOrder ''REQ-006000'',
                SendPoToVendor ''PO-006000'' ''''],
       deadlines = [(1, 480), (2, 480)]\<rparr>) \<and>
   SendApprovalNotification (make_request req_6000 director)
     \<in> set (calls (snd (run both_flags_env req_6000 (init_workflow 0))))"
  by (simp add: run_both_flags_req_6000)
     (simp add: both_flags_env_def hours_def sla_hours_def req_6000_def)

theorem both_flags_run_completes_counterexample:
  "st_approved (check_approval_status both_flags_env (requisition_id req_1000) 0) \<and>
   st_rejected (check_approval_status both_flags_env (requisition_id req_1000) 0) \<and>
   fst (run both_flags_env req_1000 (init_workflow 0)) =
     Inr [(''status'', PyStr ''complete''), (''po_number'', PyStr ''PO-001000''),
          (''sent_to_vendor'', PyBool True)] \<and>
   map_of (projr (fst (run both_flags_env req_1000 (init_workflow 0)))) ''status''
     \<noteq> Some (PyStr ''rejected'')"
  by (simp add: run_both_flags_req_1000) (simp add: both_flags_env_def)

section \<open>Invoice validation workflow: properties\<close>

text \<open>
  C7. Without a matching purchase order the run returns \<open>no_po_match\<close>, flagged for manual
  review, after the parse and the search for the order and no other activity. With a
  matching order, all three checks are scheduled; the result is \<open>approved\<close> exactly when
  line matching, price validation and receipt verification all pass, and otherwise it is
  \<open>exception\<close>, with an exception record created from the three check results and the
  issues of all three in the result.
\<close>

theorem invoice_run_outcomes:
  fixes env :: invoice_env and invoice_id :: string
  defines "invoice \<equiv> parse_invoice env invoice_id"
  defines "match \<equiv> find_matching_po env invoice"
  defines "lines \<equiv> match_invoice_lines env invoice (po_number match)"
  defines "prices \<equiv> validate_contract_prices env invoice lines"
  defines "receipt \<equiv> verify_receipts env invoice (po_number match)"
  shows "(\<not> found match \<longrightarrow>
            invoice_run env invoice_id =
              ([(''status'', PyStr ''no_po_match''), (''invoice_id'', PyStr invoice_id),
                (''requires_manual_review'', PyBool True)],
               [ParseInvoice invoice_id, FindMatchingPo invoice])) \<and>
         (found match \<longrightarrow>
            (map_of (fst (invoice_run env invoice_id)) ''status'' = Some (PyStr ''approved'')
               \<longleftrightarrow> all_matched lines \<and> all_valid prices \<and> all_received receipt) \<and>
            (all_matched lines \<and> all_valid prices \<and> all_received receipt \<longrightarrow>
               invoice_run env invoice_id =
                 ([(''status'', PyStr ''approved''), (''auto'', PyBool True)],
                  [ParseInvoice invoice_id, FindMatchingPo invoice,
                   MatchInvoiceLines invoice (po_number match),
                   ValidateContractPrices invoice lines,
                   VerifyReceipts invoice (po_number match),
                   ApproveInvoice invoice_id])) \<and>
            (\<not> (all_matched lines \<and> all_valid prices \<and> all_received receipt) \<longrightarrow>
               invoice_run env invoice_id =
                 ([(''status'', PyStr ''exception''),
                   (''exception_id'', PyStr (create_exception invoice_id)),
                   (''issues'', PyDict
                      [(''line_mismatches'', get_list (mismatches lines)),
                       (''price_violations'', get_list (violations prices)),
                       (''receipt_issues'', get_list (issues receipt))])],
                  [ParseInvoice invoice_id, FindMatchingPo invoice,
                   MatchInvoiceLines invoice (po_number match),
                   ValidateContractPrices invoice lines,
                   VerifyReceipts invoice (po_number match),
                   CreateException invoice_id lines prices receipt])))"
  unfolding invoice_def match_def lines_def prices_def receipt_def
  by (simp add: invoice_run_def Let_def)

theorem invoice_run_outcomes_witness:
  "\<not> found (find_matching_po no_po_invoice_env (parse_invoice no_po_invoice_env ''INV-000042'')) \<and>
   invoice_run no_po_invoice_env ''INV-000042'' =
     ([(''status'', PyStr ''no_po_match''), (''invoice_id'', PyStr ''INV-000042''),
       (''requires_manual_review'', PyBool True)],
      [ParseInvoice ''INV-000042'',
       FindMatchingPo (parse_invoice no_po_invoice_env ''INV-000042'')]) \<and>
   found (find_matching_po stub_invoice_env (parse_invoice stub_invoice_env ''INV-000042'')) \<and>
   fst (invoice_run stub_invoice_env ''INV-000042'') =
     [(''status'', PyStr ''approved''), (''auto'', PyBool True)] \<and>
   found (find_matching_po short_receipt_invoice_env
            (parse_invoice short_receipt_invoice_env ''INV-000042'')) \<and>
   fst (invoice_run short_receipt_invoice_env ''INV-000042'') =
     [(''status'', PyStr ''exception''), (''exception_id'', PyStr ''EXC-000042''),
      (''issues'', PyDict
         [(''line_mismatches'', PyList []), (''price_violations'', PyList []),
          (''receipt_issues'', PyList [PyStr ''line 2: 3 of 5 units received''])])]"
  using invoice_run_outcomes [of no_po_invoice_env "''INV-000042''"]
    invoice_run_outcomes [of stub_invoice_env "''INV-000042''"]
    invoice_run_outcomes [of short_receipt_invoice_env "''INV-000042''"]
  by (simp add: no_po_invoice_env_def stub_invoice_env_def short_receipt_invoice_env_def
      create_exception_def get_list_def)

section \<open>Human gate: properties\<close>

text \<open>
  C2, as the code has it. The default check of \<open>ProcurementAgent\<close> never asks for review
  when the threshold of the configuration is zero or negative, whatever the tool call.
  \<open>PriceWatchAgent\<close>, whose configuration has threshold zero, overrides the check and does
  not read the threshold: it asks for review exactly for a \<open>send_slack_alert\<close> call whose
  level is \<open>critical\<close>.
\<close>

theorem default_gate_closed_at_nonpositive_threshold:
  "(human_in_loop_threshold config \<le> 0 \<longrightarrow>
      human_gate ProcurementAgent config tool_call = Inr False) \<and>
   (human_gate PriceWatchAgent config tool_call =
      Inr (tc_name tool_call = ''send_slack_alert'' \<and>
           (case tc_args tool_call of
              None \<Rightarrow> False
            | Some args \<Rightarrow> map_of args ''level'' = Some (PyStr ''critical''))))"
  by (auto simp: requires_human_review_def PriceWatchAgent_requires_human_review_def
      args_of_def Let_def split: option.splits)

theorem default_gate_closed_at_nonpositive_threshold_witness:
  "human_in_loop_threshold price_compare_config \<le> 0 \<and>
   human_gate ProcurementAgent price_compare_config critical_call = Inr False \<and>
   human_gate PriceWatchAgent price_watch_config info_call = Inr False"
  using default_gate_closed_at_nonpositive_threshold [of price_compare_config critical_call]
    default_gate_closed_at_nonpositive_threshold [of price_watch_config info_call]
  by (simp add: price_compare_config_def AgentConfig_def info_call_def)

theorem price_watch_gates_critical_alert_counterexample:
  "human_in_loop_threshold price_watch_config \<le> 0 \<and>
   human_gate PriceWatchAgent price_watch_config critical_call = Inr True"
  by (simp add: price_watch_config_def AgentConfig_def critical_call_def
      PriceWatchAgent_requires_human_review_def args_of_def)

section \<open>Decision loop: properties\<close>

lemma searching_round:
  assumes "human_in_loop_threshold config \<le> 0"
  shows "run_graph (Suc steps) ProcurementAgent config searching_oracle st =
         run_graph steps ProcurementAgent config searching_oracle
           (st\<lparr>messages := messages st @
                 [AIMessage ''Searching the catalog'' [search_call],
                  ToolMessage ''Found 10 products matching pipettes'' ''call_0''],
               tool_results :=
                 [ToolMessage ''Found 10 products matching pipettes'' ''call_0'']\<rparr>)"
  using assms
  by (simp add: call_agent_def searching_oracle_def should_continue_def last_message_def
      requires_human_review_def call_tools_def search_call_def Let_def)

lemma searching_never_finishes:
  assumes "human_in_loop_threshold config \<le> 0"
  shows "\<exists>st'. run_graph steps ProcurementAgent config searching_oracle st = OutOfSteps st' \<and>
           round_trips st' = round_trips st + steps"
proof (induction steps arbitrary: st)
  case 0
  show ?case by simp
next
  case (Suc steps)
  let ?st1 = "st\<lparr>messages := messages st @
                 [AIMessage ''Searching the catalog'' [search_call],
                  ToolMessage ''Found 10 products matching pipettes'' ''call_0''],
               tool_results :=
                 [ToolMessage ''Found 10 products matching pipettes'' ''call_0'']\<rparr>"
  obtain st' where
    r: "run_graph steps ProcurementAgent config searching_oracle ?st1 = OutOfSteps st'"
    and n: "round_trips st' = round_trips ?st1 + steps"
    using Suc.IH [of ?st1] by blast
  have "round_trips ?st1 = Suc (round_trips st)"
    by (simp add: round_trips_def)
  with r n show ?case
    by (simp only: searching_round [OF assms]) simp
qed

text \<open>
  C8 at a conversation in which the language model proposes a tool call in every reply,
  under the default configuration (\<open>max_iterations = 10\<close>): whatever number of rounds the
  graph runtime allows, the loop uses all of them, so with eleven rounds allowed it makes
  eleven round trips. The result does not depend on \<open>max_iterations\<close>.
\<close>

theorem max_iterations_not_enforced:
  "max_iterations price_compare_config = 10 \<and>
   (\<exists>st. run_graph 11 ProcurementAgent price_compare_config searching_oracle
            (initial_state price_compare_config ''price of pipettes'' ''user-1'' ''univ-1'')
          = OutOfSteps st \<and> round_trips st = 11 \<and>
          int (round_trips st) > max_iterations price_compare_config) \<and>
   run_graph steps cls (config\<lparr>max_iterations := m\<rparr>) orc st0 =
     run_graph steps cls config orc st0"
proof -
  have thr: "human_in_loop_threshold price_compare_config \<le> 0"
    by (simp add: price_compare_config_def AgentConfig_def)
  have "round_trips
      (initial_state price_compare_config ''price of pipettes'' ''user-1'' ''univ-1'') = 0"
    by (simp add: round_trips_def initial_state_def)
  then have loop: "\<exists>st. run_graph 11 ProcurementAgent price_compare_config searching_oracle
            (initial_state price_compare_config ''price of pipettes'' ''user-1'' ''univ-1'')
          = OutOfSteps st \<and> round_trips st = 11"
    using searching_never_finishes [OF thr, of 11
        "initial_state price_compare_config ''price of pipettes'' ''user-1'' ''univ-1''"]
    by simp
  have gate: "human_gate cls (config\<lparr>max_iterations := m\<rparr>) = human_gate cls config"
    by (cases cls) (auto simp: requires_human_review_def fun_eq_iff split: option.splits)
  have indep: "run_graph steps cls (config\<lparr>max_iterations := m\<rparr>) orc st0 =
     run_graph steps cls config orc st0"
  proof (induction steps arbitrary: st0)
    case 0
    show ?case by simp
  next
    case (Suc steps)
    show ?case
      by (simp add: Let_def should_continue_def gate human_review_def last_message_def
          Suc.IH split: sum.splits route.splits)
  qed
  have limit: "max_iterations price_compare_config = 10"
    by (simp add: price_compare_config_def AgentConfig_def)
  from loop obtain st where
    "run_graph 11 ProcurementAgent price_compare_config searching_oracle
       (initial_state price_compare_config ''price of pipettes'' ''user-1'' ''univ-1'')
     = OutOfSteps st" and "round_trips st = 11"
    by blast
  then have "\<exists>st. run_graph 11 ProcurementAgent price_compare_config searching_oracle
            (initial_state price_compare_config ''price of pipettes'' ''user-1'' ''univ-1'')
          = OutOfSteps st \<and> round_trips st = 11 \<and>
          int (round_trips st) > max_iterations price_compare_config"
    using limit by auto
  then show ?thesis
    using limit indep by blast
qed

end
